theory Spec2Isabelle
  imports Complex_Main
begin

section \<open>Python values, errors and the array abstraction\<close>

text \<open>
  Exceptions are values. The string of an error raised by \<^verbatim>\<open>solver.py\<close> or
  \<^verbatim>\<open>partial_dataset.py\<close> is the literal part of the message in the source (a
  formatted suffix is left out, and \<^verbatim>\<open>{file}\<close> stands for the file name). The string
  of an error raised inside the array library names the operation. \<open>Unmodelled\<close> marks
  a call that leaves the part of the array library described here; nothing is proved
  about such a call.
\<close>

datatype error =
    TypeError string
  | RuntimeError string
  | ValueError string
  | IndexError string
  | NotImplementedError string
  | KeyError string
  | ZeroDivisionError
  | Unmodelled string

definition ebind :: "error + 'a \<Rightarrow> ('a \<Rightarrow> error + 'b) \<Rightarrow> error + 'b" where
  "ebind m f = (case m of Inl e \<Rightarrow> Inl e | Inr v \<Rightarrow> f v)"

text \<open>
  A \<^verbatim>\<open>DNDarray\<close> is described by its global content: the global shape, the split axis
  (\<open>None\<close> is unsplit) and the elements in row-major order. On a process grid of one
  rank the local tile \<^verbatim>\<open>larray\<close> is that content and \<^verbatim>\<open>Allreduce\<close> is the identity;
  the distribution of tiles over several ranks is not described, and neither are the
  \<^verbatim>\<open>dtype\<close> and the device: all arrays of a call share one element type. The element type is
  a parameter with the operations \<open>+\<close>, \<open>-\<close>, \<open>*\<close>, \<open>/\<close>, \<open>abs\<close>, \<open><\<close>, \<open>0\<close>
  and \<open>1\<close>, about which nothing is assumed, so that a statement proved for every
  element type holds for whatever the floating-point operations return.
\<close>

record 'a DNDarray =
  gshape :: "nat list"
  split :: "nat option"
  larray :: "'a list"

datatype 'a pyval = Arr "'a DNDarray" | IntV int | FloatV 'a | StrV string | NoneV

fun isinstance_DNDarray :: "'a pyval \<Rightarrow> bool" where
  "isinstance_DNDarray (Arr a) = True"
| "isinstance_DNDarray v = False"

fun isinstance_int_float :: "'a pyval \<Rightarrow> bool" where
  "isinstance_int_float (IntV k) = True"
| "isinstance_int_float (FloatV f) = True"
| "isinstance_int_float v = False"

text \<open>
  \<open>the_DNDarray\<close> is applied after \<open>isinstance_DNDarray\<close> has been checked; its value
  on another object is never used.
\<close>

fun the_DNDarray :: "'a pyval \<Rightarrow> 'a DNDarray" where
  "the_DNDarray (Arr a) = a"
| "the_DNDarray v = \<lparr>gshape = [], split = None, larray = []\<rparr>"

definition ndim :: "'a DNDarray \<Rightarrow> nat" where
  "ndim a = length (gshape a)"

text \<open>
  What the sources do not fix about the library they call is a parameter: the square
  root, the value of the literal \<^verbatim>\<open>1e-10\<close> in the element type, the elements of the
  \<open>k\<close>-th vector drawn by \<^verbatim>\<open>ht.random.rand\<close>, and the split axis the library gives
  the result of an operation (named by a string) on its operands.
\<close>

record 'a backend =
  fsqrt :: "'a \<Rightarrow> 'a"
  tol :: "'a"
  rand_elem :: "nat \<Rightarrow> nat \<Rightarrow> 'a"
  res_split :: "string \<Rightarrow> 'a DNDarray \<Rightarrow> 'a DNDarray \<Rightarrow> nat option"

section \<open>The array library, as far as the solvers use it\<close>

definition dot_list :: "'a::{zero,plus,times} list \<Rightarrow> 'a list \<Rightarrow> 'a" where
  "dot_list u v = foldl (+) 0 (map2 (*) u v)"

definition row :: "nat \<Rightarrow> 'a list \<Rightarrow> nat \<Rightarrow> 'a list" where
  "row k xs i = take k (drop (i * k) xs)"

definition col :: "nat \<Rightarrow> nat \<Rightarrow> 'a list \<Rightarrow> nat \<Rightarrow> 'a list" where
  "col n m xs j = map (\<lambda>i. xs ! (i * m + j)) [0..<n]"

text \<open>
  Modelled from the spec: \<^verbatim>\<open>ht.matmul\<close> (heat/core/linalg/basics.py) is not among the
  sources. Section 4.2: the operands have rank 1 or 2, a 1-D left operand is a row
  vector and a 1-D right operand a column vector, the inner dimensions must agree
  (the \<^verbatim>\<open>ValueError\<close> class otherwise) and a rank above 2 is not implemented. The
  product of two vectors is a 0-dimensional array, which has no axis to split.
\<close>

definition matmul ::
  "'a::{zero,plus,times} backend \<Rightarrow> 'a DNDarray \<Rightarrow> 'a DNDarray \<Rightarrow> error + 'a DNDarray" where
  "matmul bk a b =
     (if ndim a > 2 \<or> ndim b > 2 then Inl (NotImplementedError ''matmul'')
      else if ndim a = 0 \<or> ndim b = 0 then Inl (Unmodelled ''matmul'')
      else if last (gshape a) \<noteq> hd (gshape b) then Inl (ValueError ''matmul'')
      else if ndim a = 1 \<and> ndim b = 1 then
        Inr \<lparr>gshape = [], split = None, larray = [dot_list (larray a) (larray b)]\<rparr>
      else if ndim a = 2 \<and> ndim b = 1 then
        Inr \<lparr>gshape = [hd (gshape a)], split = res_split bk ''matmul'' a b,
             larray = map (\<lambda>i. dot_list (row (last (gshape a)) (larray a) i) (larray b))
                          [0..<hd (gshape a)]\<rparr>
      else if ndim a = 1 \<and> ndim b = 2 then
        Inr \<lparr>gshape = [last (gshape b)], split = res_split bk ''matmul'' a b,
             larray = map (\<lambda>j. dot_list (larray a)
                                   (col (hd (gshape b)) (last (gshape b)) (larray b) j))
                          [0..<last (gshape b)]\<rparr>
      else
        Inr \<lparr>gshape = [hd (gshape a), last (gshape b)],
             split = res_split bk ''matmul'' a b,
             larray = concat (map (\<lambda>i. map (\<lambda>j.
                          dot_list (row (last (gshape a)) (larray a) i)
                                   (col (hd (gshape b)) (last (gshape b)) (larray b) j))
                          [0..<last (gshape b)]) [0..<hd (gshape a)])\<rparr>)"

text \<open>\<^verbatim>\<open>.item()\<close>: the one element of an array, an error for any other size.\<close>

definition item :: "'a DNDarray \<Rightarrow> error + 'a" where
  "item a = (case larray a of
               [c] \<Rightarrow> Inr c
             | _ \<Rightarrow> Inl (ValueError ''only one element tensors can be converted to Python scalars''))"

text \<open>
  Modelled from the spec: the arithmetic operators of \<^verbatim>\<open>DNDarray\<close> are not among the
  sources. They work element by element on operands of one shape, and broadcast a
  0-dimensional operand; the library's broadcasting of other shapes is not described.
\<close>

definition binary_op ::
  "'a backend \<Rightarrow> string \<Rightarrow> ('a \<Rightarrow> 'a \<Rightarrow> 'a) \<Rightarrow> 'a DNDarray \<Rightarrow> 'a DNDarray \<Rightarrow> error + 'a DNDarray" where
  "binary_op bk nm f s t =
     (if gshape s = gshape t then
        Inr \<lparr>gshape = gshape s, split = res_split bk nm s t,
             larray = map2 f (larray s) (larray t)\<rparr>
      else if gshape t = [] then
        ebind (item t) (\<lambda>c.
          Inr \<lparr>gshape = gshape s, split = res_split bk nm s t,
               larray = map (\<lambda>x. f x c) (larray s)\<rparr>)
      else if gshape s = [] then
        ebind (item s) (\<lambda>c.
          Inr \<lparr>gshape = gshape t, split = res_split bk nm s t,
               larray = map (f c) (larray t)\<rparr>)
      else Inl (Unmodelled ''broadcast''))"

definition add :: "'a::plus backend \<Rightarrow> 'a DNDarray \<Rightarrow> 'a DNDarray \<Rightarrow> error + 'a DNDarray" where
  "add bk = binary_op bk ''add'' (+)"

definition sub :: "'a::minus backend \<Rightarrow> 'a DNDarray \<Rightarrow> 'a DNDarray \<Rightarrow> error + 'a DNDarray" where
  "sub bk = binary_op bk ''sub'' (-)"

definition mul :: "'a::times backend \<Rightarrow> 'a DNDarray \<Rightarrow> 'a DNDarray \<Rightarrow> error + 'a DNDarray" where
  "mul bk = binary_op bk ''mul'' (*)"

definition truediv :: "'a::inverse backend \<Rightarrow> 'a DNDarray \<Rightarrow> 'a DNDarray \<Rightarrow> error + 'a DNDarray" where
  "truediv bk = binary_op bk ''div'' (/)"

definition ht_sqrt :: "'a backend \<Rightarrow> 'a DNDarray \<Rightarrow> 'a DNDarray" where
  "ht_sqrt bk a = a\<lparr>larray := map (fsqrt bk) (larray a)\<rparr>"

text \<open>\<^verbatim>\<open>len(b)\<close>: the size of the first axis; a 0-dimensional array has no length.\<close>

definition len :: "'a DNDarray \<Rightarrow> error + nat" where
  "len a = (case gshape a of
              [] \<Rightarrow> Inl (TypeError ''len() of unsized object'')
            | n # _ \<Rightarrow> Inr n)"

section \<open>Conjugate gradients (solver.py, cg)\<close>

text \<open>
  The result of a call: the array returned, the iteration index printed in
  \<^verbatim>\<open>Residual reaches tolerance in it = i\<close> (if the line was printed), the number of
  times the loop body started (an instrumentation of the model), and the caller's
  \<^verbatim>\<open>out\<close> object after the call.
\<close>

record 'a cg_result =
  returned :: "'a DNDarray"
  printed :: "nat option"
  passes :: nat
  out_after :: "'a DNDarray option"

text \<open>Lines 48 to 52: the new \<open>x\<close>, \<open>r\<close> and \<open>rsnew\<close>.\<close>

definition cg_update ::
  "'a::{zero,plus,minus,times,inverse} backend \<Rightarrow> 'a DNDarray \<Rightarrow> 'a DNDarray \<Rightarrow> 'a DNDarray \<Rightarrow>
   'a DNDarray \<Rightarrow> 'a DNDarray \<Rightarrow> error + ('a DNDarray \<times> 'a DNDarray \<times> 'a DNDarray)" where
  "cg_update bk A x r p rsold =
     ebind (matmul bk A p) (\<lambda>Ap.
     ebind (matmul bk p Ap) (\<lambda>pAp.
     ebind (truediv bk rsold pAp) (\<lambda>alpha.
     ebind (mul bk alpha p) (\<lambda>ap.
     ebind (add bk x ap) (\<lambda>x'.
     ebind (mul bk alpha Ap) (\<lambda>aAp.
     ebind (sub bk r aAp) (\<lambda>r'.
     ebind (matmul bk r' r') (\<lambda>rsnew.
     Inr (x', r', rsnew)))))))))"

text \<open>Line 53: \<^verbatim>\<open>ht.sqrt(rsnew).item() < 1e-10\<close>.\<close>

definition cg_converged :: "'a::ord backend \<Rightarrow> 'a DNDarray \<Rightarrow> error + bool" where
  "cg_converged bk rsnew = ebind (item (ht_sqrt bk rsnew)) (\<lambda>s. Inr (s < tol bk))"

text \<open>Line 59: \<^verbatim>\<open>p = r + ((rsnew / rsold) * p)\<close>.\<close>

definition cg_direction ::
  "'a::{plus,times,inverse} backend \<Rightarrow> 'a DNDarray \<Rightarrow> 'a DNDarray \<Rightarrow> 'a DNDarray \<Rightarrow> 'a DNDarray \<Rightarrow>
   error + 'a DNDarray" where
  "cg_direction bk r p rsnew rsold =
     ebind (truediv bk rsnew rsold) (\<lambda>q.
     ebind (mul bk q p) (\<lambda>qp.
     add bk r qp))"

text \<open>
  Lines 47 to 65: \<^verbatim>\<open>for i in range(len(b))\<close> with \<open>n = len(b)\<close>, from index \<open>i\<close> on.
  The triple is the array returned, the index printed and the number of passes.
\<close>

function cg_loop ::
  "'a::{zero,plus,minus,times,inverse,ord} backend \<Rightarrow> 'a DNDarray \<Rightarrow> nat \<Rightarrow> nat \<Rightarrow>
   'a DNDarray \<Rightarrow> 'a DNDarray \<Rightarrow> 'a DNDarray \<Rightarrow> 'a DNDarray \<Rightarrow>
   error + ('a DNDarray \<times> nat option \<times> nat)" where
  "cg_loop bk A n i x r p rsold =
     (if i < n then
        (case cg_update bk A x r p rsold of
           Inl e \<Rightarrow> Inl e
         | Inr (x', r', rsnew) \<Rightarrow>
             (case cg_converged bk rsnew of
                Inl e \<Rightarrow> Inl e
              | Inr c \<Rightarrow>
                  if c then Inr (x', Some i, Suc i)
                  else (case cg_direction bk r' p rsnew rsold of
                          Inl e \<Rightarrow> Inl e
                        | Inr p' \<Rightarrow> cg_loop bk A n (Suc i) x' r' p' rsnew)))
      else Inr (x, None, i))"
  by pat_completeness auto
termination
  by (relation "measure (\<lambda>(bk, A, n, i, x, r, p, rsold). n - i)") auto

text \<open>Lines 28 to 40: the argument checks, in the order of the source.\<close>

definition cg_checks :: "'a pyval \<Rightarrow> 'a pyval \<Rightarrow> 'a pyval \<Rightarrow> error option" where
  "cg_checks A b x0 =
     (if \<not> isinstance_DNDarray A \<or> \<not> isinstance_DNDarray b \<or> \<not> isinstance_DNDarray x0 then
        Some (TypeError ''A, b and x0 need to be of type ht.DNDarray'')
      else if \<not> ndim (the_DNDarray A) = 2 then Some (RuntimeError ''A needs to be a 2D matrix'')
      else if \<not> ndim (the_DNDarray b) = 1 then Some (RuntimeError ''b needs to be a 1D vector'')
      else if \<not> ndim (the_DNDarray x0) = 1 then Some (RuntimeError ''c needs to be a 1D vector'')
      else None)"

text \<open>Lines 42 to 45: the state \<open>(x, r, p, rsold)\<close> the loop starts from.\<close>

definition cg_start ::
  "'a::{zero,plus,minus,times} backend \<Rightarrow> 'a DNDarray \<Rightarrow> 'a DNDarray \<Rightarrow> 'a DNDarray \<Rightarrow>
   error + ('a DNDarray \<times> 'a DNDarray \<times> 'a DNDarray \<times> 'a DNDarray)" where
  "cg_start bk A b x0 =
     ebind (matmul bk A x0) (\<lambda>Ax0.
     ebind (sub bk b Ax0) (\<lambda>r.
     ebind (matmul bk r r) (\<lambda>rsold.
     Inr (x0, r, r, rsold))))"

text \<open>
  \<^verbatim>\<open>cg(A, b, x0, out)\<close>. The assignment \<^verbatim>\<open>out = x\<close> (lines 56 and 63) binds the local
  name \<^verbatim>\<open>out\<close> to the array \<open>x\<close>: the function returns \<open>x\<close> and the object the caller
  passed is not written.
\<close>

definition cg ::
  "'a::{zero,plus,minus,times,inverse,ord} backend \<Rightarrow> 'a pyval \<Rightarrow> 'a pyval \<Rightarrow> 'a pyval \<Rightarrow>
   'a DNDarray option \<Rightarrow> error + 'a cg_result" where
  "cg bk A b x0 out =
     (case cg_checks A b x0 of
        Some e \<Rightarrow> Inl e
      | None \<Rightarrow>
          ebind (cg_start bk (the_DNDarray A) (the_DNDarray b) (the_DNDarray x0)) (\<lambda>(x, r, p, rsold).
          ebind (len (the_DNDarray b)) (\<lambda>n.
          ebind (cg_loop bk (the_DNDarray A) n 0 x r p rsold) (\<lambda>(y, pr, k).
          Inr \<lparr>returned = y, printed = pr, passes = k, out_after = out\<rparr>))))"

text \<open>
  The state after \<open>k\<close> whole passes of the loop body with the tolerance test left out
  (lines 48 to 52, 59 and 60), and the test of line 53 on the residual of pass \<open>k\<close>:
  the vocabulary in which the behaviour of the loop is stated.
\<close>

definition cg_pass ::
  "'a::{zero,plus,minus,times,inverse} backend \<Rightarrow> 'a DNDarray \<Rightarrow>
   ('a DNDarray \<times> 'a DNDarray \<times> 'a DNDarray \<times> 'a DNDarray) \<Rightarrow>
   error + ('a DNDarray \<times> 'a DNDarray \<times> 'a DNDarray \<times> 'a DNDarray)" where
  "cg_pass bk A st =
     (case st of (x, r, p, rsold) \<Rightarrow>
        ebind (cg_update bk A x r p rsold) (\<lambda>(x', r', rsnew).
        ebind (cg_direction bk r' p rsnew rsold) (\<lambda>p'.
        Inr (x', r', p', rsnew))))"

fun cg_after ::
  "'a::{zero,plus,minus,times,inverse} backend \<Rightarrow> 'a DNDarray \<Rightarrow> nat \<Rightarrow>
   ('a DNDarray \<times> 'a DNDarray \<times> 'a DNDarray \<times> 'a DNDarray) \<Rightarrow>
   error + ('a DNDarray \<times> 'a DNDarray \<times> 'a DNDarray \<times> 'a DNDarray)" where
  "cg_after bk A 0 st = Inr st"
| "cg_after bk A (Suc k) st = ebind (cg_pass bk A st) (cg_after bk A k)"

definition cg_reached ::
  "'a::{zero,plus,minus,times,inverse,ord} backend \<Rightarrow> 'a DNDarray \<Rightarrow>
   ('a DNDarray \<times> 'a DNDarray \<times> 'a DNDarray \<times> 'a DNDarray) \<Rightarrow> nat \<Rightarrow> bool" where
  "cg_reached bk A st k =
     (case cg_after bk A k st of
        Inl e \<Rightarrow> False
      | Inr (x, r, p, rs) \<Rightarrow> cg_converged bk rs = Inr True)"

definition scalar_shaped :: "'a DNDarray \<Rightarrow> bool" where
  "scalar_shaped a \<longleftrightarrow> gshape a = [] \<and> length (larray a) = 1"

definition cg_state_ok ::
  "nat \<Rightarrow> ('a DNDarray \<times> 'a DNDarray \<times> 'a DNDarray \<times> 'a DNDarray) \<Rightarrow> bool" where
  "cg_state_ok n st \<longleftrightarrow>
     (case st of (x, r, p, rsold) \<Rightarrow>
        gshape x = [n] \<and> gshape r = [n] \<and> gshape p = [n] \<and> scalar_shaped rsold)"

section \<open>More of the array library, for lanczos\<close>

text \<open>
  Modelled from the spec: the factories \<^verbatim>\<open>ht.zeros\<close> and \<^verbatim>\<open>ht.ones\<close> are not among
  the sources. Section 3: an array is created with a global shape, a tuple of dimension
  sizes, which never changes afterwards. A dimension that is not a non-negative
  integer is outside what is described.
\<close>

fun sanitize_shape :: "'a pyval list \<Rightarrow> error + nat list" where
  "sanitize_shape [] = Inr []"
| "sanitize_shape (IntV k # ds) =
     (if k < 0 then Inl (Unmodelled ''shape'')
      else (case sanitize_shape ds of Inl e \<Rightarrow> Inl e | Inr ns \<Rightarrow> Inr (nat k # ns)))"
| "sanitize_shape (d # ds) = Inl (Unmodelled ''shape'')"

definition ht_full :: "'a \<Rightarrow> 'a pyval list \<Rightarrow> nat option \<Rightarrow> error + 'a DNDarray" where
  "ht_full c dims sp =
     ebind (sanitize_shape dims) (\<lambda>ns.
       Inr \<lparr>gshape = ns, split = sp, larray = replicate (prod_list ns) c\<rparr>)"

definition ht_zeros :: "'a::zero pyval list \<Rightarrow> nat option \<Rightarrow> error + 'a DNDarray" where
  "ht_zeros = ht_full 0"

definition ht_ones :: "'a::one pyval list \<Rightarrow> nat option \<Rightarrow> error + 'a DNDarray" where
  "ht_ones = ht_full 1"

text \<open>\<^verbatim>\<open>ht.random.rand(n, split=sp)\<close>, the \<open>k\<close>-th vector drawn in this call.\<close>

definition ht_random_rand :: "'a backend \<Rightarrow> nat \<Rightarrow> nat \<Rightarrow> nat option \<Rightarrow> 'a DNDarray" where
  "ht_random_rand bk k n sp = \<lparr>gshape = [n], split = sp, larray = map (rand_elem bk k) [0..<n]\<rparr>"

text \<open>
  Modelled from the spec: \<^verbatim>\<open>ht.norm\<close> and \<^verbatim>\<open>ht.dot\<close> are not among the sources.
  Section 6 names them as the Euclidean norm and the dot product. A scalar result
  is a 0-dimensional array here, whether the library returns one or a Python float.
  The dot product is described for two vectors, whose lengths must agree.
\<close>

definition ht_norm :: "'a::{zero,plus,times} backend \<Rightarrow> 'a DNDarray \<Rightarrow> 'a DNDarray" where
  "ht_norm bk a =
     \<lparr>gshape = [], split = None, larray = [fsqrt bk (dot_list (larray a) (larray a))]\<rparr>"

definition ht_dot :: "'a::{zero,plus,times} DNDarray \<Rightarrow> 'a DNDarray \<Rightarrow> error + 'a DNDarray" where
  "ht_dot a b =
     (if ndim a = 1 \<and> ndim b = 1 then
        (if gshape a = gshape b then
           Inr \<lparr>gshape = [], split = None, larray = [dot_list (larray a) (larray b)]\<rparr>
         else Inl (RuntimeError ''inconsistent tensor size''))
      else Inl (Unmodelled ''dot''))"

text \<open>
  Modelled from the spec: \<^verbatim>\<open>resplit_\<close> is not among the sources. Section 4.1: it
  changes the partitioning in place and leaves the global content as it is; section 3:
  a split axis is unsplit or an axis below the number of dimensions. Sections 4.1 and 6
  also allow a \<^verbatim>\<open>resplit_\<close> that returns the resplit array; lines 171 and 172 of
  \<open>lanczos\<close> discard what it returns and section 4.4 has \<open>V\<close> unsplit afterwards, so the
  receiver is changed. The properties that depend on the effect on the receiver are
  stated over \<open>lanczos_on\<close> below, where that effect is a parameter.
\<close>

definition resplit_inplace :: "'a DNDarray \<Rightarrow> nat option \<Rightarrow> error + 'a DNDarray" where
  "resplit_inplace a axis =
     (case axis of
        None \<Rightarrow> Inr (a\<lparr>split := None\<rparr>)
      | Some k \<Rightarrow> if k < ndim a then Inr (a\<lparr>split := Some k\<rparr>) else Inl (Unmodelled ''resplit_''))"

text \<open>\<^verbatim>\<open>DNDarray.copy()\<close>: a new array with the content and the split of the old one.\<close>

definition copy :: "'a DNDarray \<Rightarrow> 'a DNDarray" where
  "copy a = a"

text \<open>
  Indexing (modelled from the spec, section 3: the content of an array may be written
  in place, its shape stays). \<^verbatim>\<open>T[i, j] = v\<close> writes one element of a matrix,
  \<^verbatim>\<open>V[:, j] = v\<close> writes a column, \<^verbatim>\<open>V[:, j]\<close> reads one, and \<^verbatim>\<open>V.larray[:, j]\<close> reads it
  from the local tensor. An index outside the shape is an \<^verbatim>\<open>IndexError\<close>.
\<close>

definition setitem :: "'a DNDarray \<Rightarrow> nat \<Rightarrow> nat \<Rightarrow> 'a DNDarray \<Rightarrow> error + 'a DNDarray" where
  "setitem T i j v =
     (if ndim T = 2 \<and> i < gshape T ! 0 \<and> j < gshape T ! 1 then
        ebind (item v) (\<lambda>c. Inr (T\<lparr>larray := (larray T)[i * (gshape T ! 1) + j := c]\<rparr>))
      else Inl (IndexError ''index out of bounds''))"

definition setcol :: "'a DNDarray \<Rightarrow> nat \<Rightarrow> 'a DNDarray \<Rightarrow> error + 'a DNDarray" where
  "setcol V j v =
     (if ndim V = 2 \<and> j < gshape V ! 1 then
        (if gshape v = [gshape V ! 0] then
           Inr (V\<lparr>larray := map (\<lambda>k. if k mod (gshape V ! 1) = j
                                        then larray v ! (k div (gshape V ! 1))
                                        else larray V ! k)
                                 [0..<length (larray V)]\<rparr>)
         else Inl (Unmodelled ''setitem''))
      else Inl (IndexError ''index out of bounds''))"

definition torch_col :: "'a DNDarray \<Rightarrow> nat \<Rightarrow> error + 'a list" where
  "torch_col V j =
     (if ndim V = 2 \<and> j < gshape V ! 1 then Inr (col (gshape V ! 0) (gshape V ! 1) (larray V) j)
      else Inl (IndexError ''index out of bounds''))"

definition getcol :: "'a backend \<Rightarrow> 'a DNDarray \<Rightarrow> nat \<Rightarrow> error + 'a DNDarray" where
  "getcol bk V j =
     ebind (torch_col V j) (\<lambda>c.
       Inr \<lparr>gshape = [gshape V ! 0], split = res_split bk ''getitem'' V V, larray = c\<rparr>)"

text \<open>\<^verbatim>\<open>torch.dot\<close> on two local tensors: their sizes must agree.\<close>

definition torch_dot :: "'a::{zero,plus,times} list \<Rightarrow> 'a list \<Rightarrow> error + 'a" where
  "torch_dot u v =
     (if length u = length v then Inr (dot_list u v)
      else Inl (RuntimeError ''inconsistent tensor size''))"

section \<open>The Lanczos iteration (solver.py, lanczos)\<close>

text \<open>Lines 98 to 108: the argument checks, in the order of the source.\<close>

definition lanczos_checks :: "'a pyval \<Rightarrow> 'a pyval \<Rightarrow> error option" where
  "lanczos_checks A m =
     (if \<not> isinstance_DNDarray A then Some (TypeError ''A needs to be of type ht.dndarra'')
      else if \<not> (ndim (the_DNDarray A) = 2) then Some (RuntimeError ''A needs to be a 2D matrix'')
      else if \<not> isinstance_int_float m then Some (TypeError ''m must be eiter int or float'')
      else if gshape (the_DNDarray A) ! 0 \<noteq> gshape (the_DNDarray A) ! 1 then
        Some (TypeError ''Input Matrix A needs to be symmetric.'')
      else None)"

text \<open>Lines 110 to 114: the basis matrix as it is allocated.\<close>

definition lanczos_alloc_V :: "'a::one DNDarray \<Rightarrow> nat \<Rightarrow> 'a pyval \<Rightarrow> error + 'a DNDarray" where
  "lanczos_alloc_V A n m =
     (if split A = Some 0 then ht_ones [IntV (int n), m] (Some 0)
      else ht_ones [IntV (int n), m] None)"

text \<open>
  Lines 116 to 121: the starting vector, the caller's \<^verbatim>\<open>v0\<close> object after these lines
  (with \<^verbatim>\<open>resplit_\<close> changing its receiver; \<open>lanczos_v0_on\<close> below takes the effect as a
  parameter) and the number of vectors drawn so far.
\<close>

definition lanczos_v0 ::
  "'a::{zero,plus,times,inverse} backend \<Rightarrow> nat \<Rightarrow> 'a DNDarray \<Rightarrow> 'a DNDarray option \<Rightarrow>
   error + ('a DNDarray \<times> 'a DNDarray option \<times> nat)" where
  "lanczos_v0 bk n V v0 =
     (case v0 of
        None \<Rightarrow>
          (let vr = ht_random_rand bk 0 n (split V) in
           ebind (truediv bk vr (ht_norm bk vr)) (\<lambda>v. Inr (v, None, 1)))
      | Some v \<Rightarrow>
          if split v \<noteq> split V then
            ebind (resplit_inplace v (split V)) (\<lambda>v'. Inr (v', Some v', 0))
          else Inr (v, Some v, 0))"

text \<open>
  Lines 136 to 142 and 151 to 157: one step of the Gram-Schmidt loop, against column
  \<open>j\<close> of \<open>V\<close>, and the loop over a list of columns, on one rank: the local tensors
  are the whole arrays. The local tensor of \<open>vr\<close> is replaced; its shape and split
  stay. \<open>reorth_step_on\<close> below is the step on several ranks.
\<close>

definition reorth_step ::
  "'a::{zero,plus,minus,times,inverse} DNDarray \<Rightarrow> 'a DNDarray \<Rightarrow> nat \<Rightarrow> error + 'a DNDarray" where
  "reorth_step V vr j =
     ebind (torch_col V j) (\<lambda>vi_loc.
     ebind (torch_dot (larray vr) vi_loc) (\<lambda>a.
     ebind (torch_dot vi_loc vi_loc) (\<lambda>b.
     Inr (vr\<lparr>larray := map2 (-) (larray vr) (map ((*) (a / b)) vi_loc)\<rparr>))))"

fun reorth_loop ::
  "'a::{zero,plus,minus,times,inverse} DNDarray \<Rightarrow> nat list \<Rightarrow> 'a DNDarray \<Rightarrow> error + 'a DNDarray" where
  "reorth_loop V [] vr = Inr vr"
| "reorth_loop V (j # js) vr =
     (case reorth_step V vr j of Inl e \<Rightarrow> Inl e | Inr vr' \<Rightarrow> reorth_loop V js vr')"

text \<open>
  Lines 130 to 159: \<open>beta\<close>, the choice between the breakdown branch and the normal
  branch, and the next basis vector \<open>vi\<close>; the last component is the number of vectors
  drawn afterwards.
\<close>

definition lanczos_candidate ::
  "'a::{zero,plus,minus,times,inverse,abs,ord} backend \<Rightarrow> nat \<Rightarrow> nat \<Rightarrow> 'a DNDarray \<Rightarrow>
   'a DNDarray \<Rightarrow> nat \<Rightarrow> error + ('a DNDarray \<times> 'a DNDarray \<times> nat)" where
  "lanczos_candidate bk n i w V draws =
     (let beta = ht_norm bk w in
      ebind (item beta) (\<lambda>c.
        if abs c < tol bk then
          ebind (reorth_loop V [0..<i] (ht_random_rand bk draws n (split V))) (\<lambda>vr.
          ebind (truediv bk vr (ht_norm bk vr)) (\<lambda>vi.
          Inr (beta, vi, Suc draws)))
        else
          ebind (reorth_loop V [0..<i] w) (\<lambda>vr.
          ebind (truediv bk vr (ht_norm bk vr)) (\<lambda>vi.
          Inr (beta, vi, draws)))))"

text \<open>Lines 161 to 164: the new \<open>w\<close> and \<open>alpha\<close>.\<close>

definition lanczos_recurrence ::
  "'a::{zero,plus,minus,times} backend \<Rightarrow> 'a DNDarray \<Rightarrow> nat \<Rightarrow> 'a DNDarray \<Rightarrow> 'a DNDarray \<Rightarrow>
   'a DNDarray \<Rightarrow> error + ('a DNDarray \<times> 'a DNDarray)" where
  "lanczos_recurrence bk A i beta vi V =
     ebind (matmul bk A vi) (\<lambda>w.
     ebind (ht_dot w vi) (\<lambda>alpha.
     ebind (mul bk alpha vi) (\<lambda>avi.
     ebind (sub bk w avi) (\<lambda>w1.
     ebind (getcol bk V (i - 1)) (\<lambda>vprev.
     ebind (mul bk beta vprev) (\<lambda>bv.
     ebind (sub bk w1 bv) (\<lambda>w2.
     Inr (w2, alpha))))))))"

text \<open>Lines 166 to 169: the four stores of iteration \<open>i\<close>.\<close>

definition lanczos_store ::
  "nat \<Rightarrow> 'a DNDarray \<Rightarrow> 'a DNDarray \<Rightarrow> 'a DNDarray \<Rightarrow> 'a DNDarray \<Rightarrow> 'a DNDarray \<Rightarrow>
   error + ('a DNDarray \<times> 'a DNDarray)" where
  "lanczos_store i beta alpha vi T V =
     ebind (setitem T (i - 1) i beta) (\<lambda>T1.
     ebind (setitem T1 i (i - 1) beta) (\<lambda>T2.
     ebind (setitem T2 i i alpha) (\<lambda>T3.
     ebind (setcol V i vi) (\<lambda>V1.
     Inr (T3, V1)))))"

text \<open>
  The variables the loop carries from one iteration to the next, and the counter of
  drawn vectors. \<open>lz_coef\<close> holds \<open>(beta, alpha, vi)\<close> as the last iteration left them
  (\<open>None\<close> before the first iteration of the loop).
\<close>

record 'a lanczos_state =
  lz_w :: "'a DNDarray"
  lz_T :: "'a DNDarray"
  lz_V :: "'a DNDarray"
  lz_draws :: nat
  lz_coef :: "('a DNDarray \<times> 'a DNDarray \<times> 'a DNDarray) option"

text \<open>Lines 130 to 169: the body of the loop for index \<open>i\<close>.\<close>

definition lanczos_step ::
  "'a::{zero,plus,minus,times,inverse,abs,ord} backend \<Rightarrow> 'a DNDarray \<Rightarrow> nat \<Rightarrow> nat \<Rightarrow>
   'a lanczos_state \<Rightarrow> error + 'a lanczos_state" where
  "lanczos_step bk A n i st =
     ebind (lanczos_candidate bk n i (lz_w st) (lz_V st) (lz_draws st)) (\<lambda>(beta, vi, d).
     ebind (lanczos_recurrence bk A i beta vi (lz_V st)) (\<lambda>(w, alpha).
     ebind (lanczos_store i beta alpha vi (lz_T st) (lz_V st)) (\<lambda>(T', V').
     Inr \<lparr>lz_w = w, lz_T = T', lz_V = V', lz_draws = d, lz_coef = Some (beta, alpha, vi)\<rparr>)))"

text \<open>
  Line 129: \<^verbatim>\<open>for i in range(1, int(m))\<close>, from index \<open>i\<close> on, with \<open>m\<close> for
  \<^verbatim>\<open>int(m)\<close>.
\<close>

function lanczos_loop ::
  "'a::{zero,plus,minus,times,inverse,abs,ord} backend \<Rightarrow> 'a DNDarray \<Rightarrow> nat \<Rightarrow> nat \<Rightarrow> nat \<Rightarrow>
   'a lanczos_state \<Rightarrow> error + 'a lanczos_state" where
  "lanczos_loop bk A n i m st =
     (if i < m then
        (case lanczos_step bk A n i st of
           Inl e \<Rightarrow> Inl e
         | Inr st' \<Rightarrow> lanczos_loop bk A n (Suc i) m st')
      else Inr st)"
  by pat_completeness auto
termination
  by (relation "measure (\<lambda>(bk, A, n, i, m, st). m - i)") auto

text \<open>
  Lines 109 to 128: the allocation of \<open>T\<close> and \<open>V\<close>, the starting vector and the 0th
  iteration. The result is the state the loop starts from, the first \<open>alpha\<close> and the
  caller's \<^verbatim>\<open>v0\<close> object.
\<close>

definition lanczos_init ::
  "'a::{zero,one,plus,minus,times,inverse} backend \<Rightarrow> 'a DNDarray \<Rightarrow> 'a pyval \<Rightarrow>
   'a DNDarray option \<Rightarrow> error + ('a lanczos_state \<times> 'a DNDarray \<times> 'a DNDarray option)" where
  "lanczos_init bk A m v0 =
     (let n = gshape A ! 0 in
      ebind (ht_zeros [m, m] None) (\<lambda>T.
      ebind (lanczos_alloc_V A n m) (\<lambda>V.
      ebind (lanczos_v0 bk n V v0) (\<lambda>(v, v0', d).
      ebind (matmul bk A v) (\<lambda>w.
      ebind (ht_dot w v) (\<lambda>alpha.
      ebind (mul bk alpha v) (\<lambda>av.
      ebind (sub bk w av) (\<lambda>w1.
      ebind (setitem T 0 0 alpha) (\<lambda>T1.
      ebind (setcol V 0 v) (\<lambda>V1.
      Inr (\<lparr>lz_w = w1, lz_T = T1, lz_V = V1, lz_draws = d, lz_coef = None\<rparr>, alpha, v0')))))))))))"

text \<open>
  The result of a call: the pair returned, and the caller's \<^verbatim>\<open>v0\<close>, \<^verbatim>\<open>V_out\<close> and
  \<^verbatim>\<open>T_out\<close> objects after the call.
\<close>

record 'a lanczos_result =
  ret_V :: "'a DNDarray"
  ret_T :: "'a DNDarray"
  v0_after :: "'a DNDarray option"
  V_out_after :: "'a DNDarray option"
  T_out_after :: "'a DNDarray option"

text \<open>
  Lines 171 to 184. \<^verbatim>\<open>T_out = T.copy()\<close> and \<^verbatim>\<open>V_out = V.copy()\<close> bind the local names to
  new arrays; the objects the caller passed are not written.
\<close>

definition lanczos_return ::
  "'a DNDarray \<Rightarrow> 'a DNDarray \<Rightarrow> 'a DNDarray option \<Rightarrow> 'a DNDarray option \<Rightarrow> 'a DNDarray option \<Rightarrow>
   error + 'a lanczos_result" where
  "lanczos_return V T v0' V_out T_out =
     ebind (if split V \<noteq> None then resplit_inplace V None else Inr V) (\<lambda>V'.
       if T_out \<noteq> None then
         (if V_out \<noteq> None then
            Inr \<lparr>ret_V = copy V', ret_T = copy T, v0_after = v0',
                 V_out_after = V_out, T_out_after = T_out\<rparr>
          else
            Inr \<lparr>ret_V = V', ret_T = copy T, v0_after = v0',
                 V_out_after = V_out, T_out_after = T_out\<rparr>)
       else if V_out \<noteq> None then
         Inr \<lparr>ret_V = copy V', ret_T = T, v0_after = v0',
              V_out_after = V_out, T_out_after = T_out\<rparr>
       else
         Inr \<lparr>ret_V = V', ret_T = T, v0_after = v0',
              V_out_after = V_out, T_out_after = T_out\<rparr>)"

text \<open>
  The bound \<^verbatim>\<open>int(m)\<close> of the loop. Once \<open>T\<close> has been allocated \<open>m\<close> is a
  non-negative integer, and \<^verbatim>\<open>int(m)\<close> is \<open>m\<close>.
\<close>

fun int_of :: "'a pyval \<Rightarrow> nat" where
  "int_of (IntV k) = nat k"
| "int_of v = 0"

definition lanczos ::
  "'a::{zero,one,plus,minus,times,inverse,abs,ord} backend \<Rightarrow> 'a pyval \<Rightarrow> 'a pyval \<Rightarrow>
   'a DNDarray option \<Rightarrow> 'a DNDarray option \<Rightarrow> 'a DNDarray option \<Rightarrow>
   error + 'a lanczos_result" where
  "lanczos bk A m v0 V_out T_out =
     (case lanczos_checks A m of
        Some e \<Rightarrow> Inl e
      | None \<Rightarrow>
          ebind (lanczos_init bk (the_DNDarray A) m v0) (\<lambda>(st0, alpha0, v0').
          ebind (lanczos_loop bk (the_DNDarray A) (gshape (the_DNDarray A) ! 0) 1 (int_of m) st0) (\<lambda>st.
          lanczos_return (lz_V st) (lz_T st) v0' V_out T_out)))"

section \<open>The Lanczos iteration on several ranks\<close>

text \<open>
  The definitions above describe \<open>lanczos\<close> on one rank, with \<^verbatim>\<open>resplit_\<close> changing
  its receiver. Here the number of ranks and the effect of \<^verbatim>\<open>resplit_\<close> on its receiver
  are parameters. The arrays are still given by their global content; what differs is
  the Gram-Schmidt loop, which works on the local tensors (\<^verbatim>\<open>V.larray\<close>,
  \<^verbatim>\<open>vr.larray\<close>, \<^verbatim>\<open>vr._DNDarray__array\<close>) and sums over the ranks with \<^verbatim>\<open>Allreduce\<close>.
  \<open>lanczos_on_one_rank\<close> below shows that \<open>lanczos\<close> is the instance for one rank.
\<close>

record 'a runtime =
  ranks :: nat
  resplit_effect :: "'a DNDarray \<Rightarrow> nat option \<Rightarrow> error + 'a DNDarray"

text \<open>
  Modelled from the spec: the distribution of a split axis is library code that is
  not among the sources. Section 3: an axis of length \<open>n\<close> is cut into contiguous blocks
  of \<open>ceil(n / p)\<close> elements, the last rank receiving the remainder; an unsplit array is
  held whole by every rank. \<open>chunk p r n\<close> is the offset and the size of the block of
  rank \<open>r\<close>, \<open>tile\<close> the local part of a vector, \<open>untile\<close> the global content given
  by the local parts.
\<close>

definition chunk :: "nat \<Rightarrow> nat \<Rightarrow> nat \<Rightarrow> nat \<times> nat" where
  "chunk p r n =
     (let blk = (n + p - 1) div p; off = min (r * blk) n
      in (off, min ((r + 1) * blk) n - off))"

definition tile :: "nat \<Rightarrow> nat \<Rightarrow> nat option \<Rightarrow> 'a list \<Rightarrow> 'a list" where
  "tile p r sp xs =
     (case sp of
        None \<Rightarrow> xs
      | Some ax \<Rightarrow> take (snd (chunk p r (length xs))) (drop (fst (chunk p r (length xs))) xs))"

definition untile :: "nat option \<Rightarrow> 'a list list \<Rightarrow> 'a list" where
  "untile sp ts =
     (case sp of
        None \<Rightarrow> (case ts of [] \<Rightarrow> [] | t # _ \<Rightarrow> t)
      | Some ax \<Rightarrow> concat ts)"

text \<open>
  \<^verbatim>\<open>Allreduce(..., SUM)\<close>: the sum of the values of the ranks, starting from rank 0.
\<close>

definition allreduce_sum :: "'a::{zero,plus} list \<Rightarrow> 'a" where
  "allreduce_sum ds = (case ds of [] \<Rightarrow> 0 | d # ds' \<Rightarrow> foldl (+) d ds')"

text \<open>
  Lines 136 to 142 and 151 to 157 on \<open>p\<close> ranks. Every rank takes column \<open>j\<close> of its
  tile of \<open>V\<close> and its tile of \<open>vr\<close>; \<^verbatim>\<open>torch.dot\<close> raises where the two have different
  sizes; \<open>a\<close> and \<open>b\<close> are summed over the ranks; every rank updates its tile of \<open>vr\<close>.
  \<open>V\<close> is unsplit or split along axis 0 (lines 110 to 114), so its tile holds whole
  rows.
\<close>

definition reorth_step_on ::
  "nat \<Rightarrow> 'a::{zero,plus,minus,times,inverse} DNDarray \<Rightarrow> 'a DNDarray \<Rightarrow> nat \<Rightarrow> error + 'a DNDarray" where
  "reorth_step_on p V vr j =
     ebind (torch_col V j) (\<lambda>c.
       let vi_locs = map (\<lambda>r. tile p r (split V) c) [0..<p];
           vr_locs = map (\<lambda>r. tile p r (split vr) (larray vr)) [0..<p]
       in
         if \<not> list_all2 (\<lambda>x y. length x = length y) vr_locs vi_locs then
           Inl (RuntimeError ''inconsistent tensor size'')
         else
           let a = allreduce_sum (map2 dot_list vr_locs vi_locs);
               b = allreduce_sum (map (\<lambda>y. dot_list y y) vi_locs)
           in Inr (vr\<lparr>larray := untile (split vr)
                      (map2 (\<lambda>x y. map2 (-) x (map ((*) (a / b)) y)) vr_locs vi_locs)\<rparr>))"

fun reorth_loop_on ::
  "nat \<Rightarrow> 'a::{zero,plus,minus,times,inverse} DNDarray \<Rightarrow> nat list \<Rightarrow> 'a DNDarray \<Rightarrow> error + 'a DNDarray" where
  "reorth_loop_on p V [] vr = Inr vr"
| "reorth_loop_on p V (j # js) vr =
     (case reorth_step_on p V vr j of Inl e \<Rightarrow> Inl e | Inr vr' \<Rightarrow> reorth_loop_on p V js vr')"

text \<open>
  Lines 130 to 169 and the loop of line 129, with the Gram-Schmidt loop on \<open>p\<close> ranks.
\<close>

definition lanczos_candidate_on ::
  "nat \<Rightarrow> 'a::{zero,plus,minus,times,inverse,abs,ord} backend \<Rightarrow> nat \<Rightarrow> nat \<Rightarrow> 'a DNDarray \<Rightarrow>
   'a DNDarray \<Rightarrow> nat \<Rightarrow> error + ('a DNDarray \<times> 'a DNDarray \<times> nat)" where
  "lanczos_candidate_on p bk n i w V draws =
     (let beta = ht_norm bk w in
      ebind (item beta) (\<lambda>c.
        if abs c < tol bk then
          ebind (reorth_loop_on p V [0..<i] (ht_random_rand bk draws n (split V))) (\<lambda>vr.
          ebind (truediv bk vr (ht_norm bk vr)) (\<lambda>vi.
          Inr (beta, vi, Suc draws)))
        else
          ebind (reorth_loop_on p V [0..<i] w) (\<lambda>vr.
          ebind (truediv bk vr (ht_norm bk vr)) (\<lambda>vi.
          Inr (beta, vi, draws)))))"

definition lanczos_step_on ::
  "nat \<Rightarrow> 'a::{zero,plus,minus,times,inverse,abs,ord} backend \<Rightarrow> 'a DNDarray \<Rightarrow> nat \<Rightarrow> nat \<Rightarrow>
   'a lanczos_state \<Rightarrow> error + 'a lanczos_state" where
  "lanczos_step_on p bk A n i st =
     ebind (lanczos_candidate_on p bk n i (lz_w st) (lz_V st) (lz_draws st)) (\<lambda>(beta, vi, d).
     ebind (lanczos_recurrence bk A i beta vi (lz_V st)) (\<lambda>(w, alpha).
     ebind (lanczos_store i beta alpha vi (lz_T st) (lz_V st)) (\<lambda>(T', V').
     Inr \<lparr>lz_w = w, lz_T = T', lz_V = V', lz_draws = d, lz_coef = Some (beta, alpha, vi)\<rparr>)))"

function lanczos_loop_on ::
  "nat \<Rightarrow> 'a::{zero,plus,minus,times,inverse,abs,ord} backend \<Rightarrow> 'a DNDarray \<Rightarrow> nat \<Rightarrow> nat \<Rightarrow> nat \<Rightarrow>
   'a lanczos_state \<Rightarrow> error + 'a lanczos_state" where
  "lanczos_loop_on p bk A n i m st =
     (if i < m then
        (case lanczos_step_on p bk A n i st of
           Inl e \<Rightarrow> Inl e
         | Inr st' \<Rightarrow> lanczos_loop_on p bk A n (Suc i) m st')
      else Inr st)"
  by pat_completeness auto
termination
  by (relation "measure (\<lambda>(p, bk, A, n, i, m, st). m - i)") auto

text \<open>
  Lines 116 to 121, 109 to 128 and 171 to 184, with the effect of \<^verbatim>\<open>resplit_\<close> on its
  receiver taken from the parameter: the object the caller passed as \<^verbatim>\<open>v0\<close> is the
  receiver of line 121, and \<open>V\<close> the receiver of line 172.
\<close>

definition lanczos_v0_on ::
  "'a runtime \<Rightarrow> 'a::{zero,plus,times,inverse} backend \<Rightarrow> nat \<Rightarrow> 'a DNDarray \<Rightarrow> 'a DNDarray option \<Rightarrow>
   error + ('a DNDarray \<times> 'a DNDarray option \<times> nat)" where
  "lanczos_v0_on rt bk n V v0 =
     (case v0 of
        None \<Rightarrow>
          (let vr = ht_random_rand bk 0 n (split V) in
           ebind (truediv bk vr (ht_norm bk vr)) (\<lambda>v. Inr (v, None, 1)))
      | Some v \<Rightarrow>
          if split v \<noteq> split V then
            ebind (resplit_effect rt v (split V)) (\<lambda>v'. Inr (v', Some v', 0))
          else Inr (v, Some v, 0))"

definition lanczos_init_on ::
  "'a runtime \<Rightarrow> 'a::{zero,one,plus,minus,times,inverse} backend \<Rightarrow> 'a DNDarray \<Rightarrow> 'a pyval \<Rightarrow>
   'a DNDarray option \<Rightarrow> error + ('a lanczos_state \<times> 'a DNDarray \<times> 'a DNDarray option)" where
  "lanczos_init_on rt bk A m v0 =
     (let n = gshape A ! 0 in
      ebind (ht_zeros [m, m] None) (\<lambda>T.
      ebind (lanczos_alloc_V A n m) (\<lambda>V.
      ebind (lanczos_v0_on rt bk n V v0) (\<lambda>(v, v0', d).
      ebind (matmul bk A v) (\<lambda>w.
      ebind (ht_dot w v) (\<lambda>alpha.
      ebind (mul bk alpha v) (\<lambda>av.
      ebind (sub bk w av) (\<lambda>w1.
      ebind (setitem T 0 0 alpha) (\<lambda>T1.
      ebind (setcol V 0 v) (\<lambda>V1.
      Inr (\<lparr>lz_w = w1, lz_T = T1, lz_V = V1, lz_draws = d, lz_coef = None\<rparr>, alpha, v0')))))))))))"

definition lanczos_return_on ::
  "'a runtime \<Rightarrow> 'a DNDarray \<Rightarrow> 'a DNDarray \<Rightarrow> 'a DNDarray option \<Rightarrow> 'a DNDarray option \<Rightarrow>
   'a DNDarray option \<Rightarrow> error + 'a lanczos_result" where
  "lanczos_return_on rt V T v0' V_out T_out =
     ebind (if split V \<noteq> None then resplit_effect rt V None else Inr V) (\<lambda>V'.
       if T_out \<noteq> None then
         (if V_out \<noteq> None then
            Inr \<lparr>ret_V = copy V', ret_T = copy T, v0_after = v0',
                 V_out_after = V_out, T_out_after = T_out\<rparr>
          else
            Inr \<lparr>ret_V = V', ret_T = copy T, v0_after = v0',
                 V_out_after = V_out, T_out_after = T_out\<rparr>)
       else if V_out \<noteq> None then
         Inr \<lparr>ret_V = copy V', ret_T = T, v0_after = v0',
              V_out_after = V_out, T_out_after = T_out\<rparr>
       else
         Inr \<lparr>ret_V = V', ret_T = T, v0_after = v0',
              V_out_after = V_out, T_out_after = T_out\<rparr>)"

definition lanczos_on ::
  "'a runtime \<Rightarrow> 'a::{zero,one,plus,minus,times,inverse,abs,ord} backend \<Rightarrow> 'a pyval \<Rightarrow> 'a pyval \<Rightarrow>
   'a DNDarray option \<Rightarrow> 'a DNDarray option \<Rightarrow> 'a DNDarray option \<Rightarrow>
   error + 'a lanczos_result" where
  "lanczos_on rt bk A m v0 V_out T_out =
     (case lanczos_checks A m of
        Some e \<Rightarrow> Inl e
      | None \<Rightarrow>
          ebind (lanczos_init_on rt bk (the_DNDarray A) m v0) (\<lambda>(st0, alpha0, v0').
          ebind (lanczos_loop_on (ranks rt) bk (the_DNDarray A)
                   (gshape (the_DNDarray A) ! 0) 1 (int_of m) st0) (\<lambda>st.
          lanczos_return_on rt (lz_V st) (lz_T st) v0' V_out T_out)))"

section \<open>The constructor of PartialH5Dataset (partial-dataset.py)\<close>

text \<open>
  The opened HDF5 file is the list of its datasets in the order of \<^verbatim>\<open>f.keys()\<close>, each
  with the length \<^verbatim>\<open>f[k].len()\<close> of its first axis. The content of the datasets, the
  choice of a device and the two threads started at the end are not described; the
  object built is the numeric loader state of lines 110 to 146.
\<close>

type_synonym h5file = "(string \<times> nat) list"

record MPICommunication =
  comm_rank :: nat
  comm_size :: nat

record PartialH5Dataset =
  total_size :: int
  lcl_full_sz :: int
  local_data_start :: int
  local_data_end :: int
  local_length :: "int option"
  load_initial :: int
  partial_dataset :: bool
  load_len :: int
  loads_needed :: int
  loads_left :: int
  load_start :: int
  load_end :: int
  dataset_names :: "string list"

definition h5_len :: "h5file \<Rightarrow> string \<Rightarrow> error + nat" where
  "h5_len f k = (case map_of f k of None \<Rightarrow> Inl (KeyError k) | Some l \<Rightarrow> Inr l)"

text \<open>Lines 105 to 108: the loop over \<^verbatim>\<open>fkeys[1:]\<close>.\<close>

fun same_length_check :: "h5file \<Rightarrow> nat \<Rightarrow> string list \<Rightarrow> error option" where
  "same_length_check f sz [] = None"
| "same_length_check f sz (k # ks) =
     (case h5_len f k of
        Inl e \<Rightarrow> Some e
      | Inr l \<Rightarrow>
          if l \<noteq> sz then Some (ValueError ''all datasets in {file} must be the same length'')
          else same_length_check f sz ks)"

text \<open>Lines 140 to 143: every name in \<^verbatim>\<open>dataset_names\<close> is looked up in the file.\<close>

fun load_names :: "h5file \<Rightarrow> string list \<Rightarrow> error option" where
  "load_names f [] = None"
| "load_names f (d # ds) =
     (case h5_len f d of Inl e \<Rightarrow> Some e | Inr l \<Rightarrow> load_names f ds)"

text \<open>Lines 109 to 134: the sizes, for the whole data set or for a part of it.\<close>

definition loader_sizes ::
  "nat \<Rightarrow> MPICommunication \<Rightarrow> string list \<Rightarrow> bool \<Rightarrow> int \<Rightarrow> int \<Rightarrow> error + PartialH5Dataset" where
  "loader_sizes sz comm names validate_set initial_load load_length =
     (if comm_size comm = 0 then Inl ZeroDivisionError
      else
        let lcl = int sz div int (comm_size comm);
            lstart = int (comm_rank comm) * lcl;
            lend = (int (comm_rank comm) + 1) * lcl
        in
          if validate_set \<or> initial_load > lcl then
            Inr \<lparr>total_size = int sz, lcl_full_sz = int sz, local_data_start = 0,
                 local_data_end = int sz, local_length = None, load_initial = int sz,
                 partial_dataset = False, load_len = 0, loads_needed = 0, loads_left = 0,
                 load_start = 0, load_end = 0 + int sz, dataset_names = names\<rparr>
          else if load_length = 0 then Inl ZeroDivisionError
          else
            Inr \<lparr>total_size = int sz, lcl_full_sz = lcl, local_data_start = lstart,
                 local_data_end = lend, local_length = Some (lend - lstart),
                 load_initial = initial_load, partial_dataset = True, load_len = load_length,
                 loads_needed = \<lceil>real_of_int lcl / real_of_int load_length\<rceil>,
                 loads_left = \<lceil>real_of_int lcl / real_of_int load_length\<rceil>,
                 load_start = lstart, load_end = lstart + initial_load,
                 dataset_names = names\<rparr>)"

definition PartialH5Dataset_init ::
  "h5file \<Rightarrow> MPICommunication \<Rightarrow> string list \<Rightarrow> bool \<Rightarrow> int \<Rightarrow> int \<Rightarrow> error + PartialH5Dataset" where
  "PartialH5Dataset_init f comm names validate_set initial_load load_length =
     (case map fst f of
        [] \<Rightarrow> Inl (IndexError ''list index out of range'')
      | k0 # ks \<Rightarrow>
          ebind (h5_len f k0) (\<lambda>sz.
            case same_length_check f sz ks of
              Some e \<Rightarrow> Inl e
            | None \<Rightarrow>
                ebind (loader_sizes sz comm names validate_set initial_load load_length) (\<lambda>d.
                  case load_names f names of
                    Some e \<Rightarrow> Inl e
                  | None \<Rightarrow>
                      Inr (d\<lparr>load_start := load_end d,
                             load_end := load_end d + load_len d\<rparr>))))"

section \<open>Shapes and entries, for stating the properties\<close>

text \<open>
  A vector of length \<open>n\<close> and an \<open>n \<times> m\<close> matrix whose content has the size of the
  shape; the entry \<^verbatim>\<open>T[i][j]\<close> of a matrix; the state of the Lanczos loop with arrays of
  the right shapes; a matrix that is symmetric, zero off the three diagonals and zero
  in the rows and columns from \<open>i\<close> on; a starting vector that is absent or has length
  \<open>n\<close>; the split axis lines 110 to 114 choose for \<open>V\<close>.
\<close>

definition vec_shaped :: "nat \<Rightarrow> 'a DNDarray \<Rightarrow> bool" where
  "vec_shaped n a \<longleftrightarrow> gshape a = [n] \<and> length (larray a) = n"

definition mat_shaped :: "nat \<Rightarrow> nat \<Rightarrow> 'a DNDarray \<Rightarrow> bool" where
  "mat_shaped n m a \<longleftrightarrow> gshape a = [n, m] \<and> length (larray a) = n * m"

definition entry :: "'a DNDarray \<Rightarrow> nat \<Rightarrow> nat \<Rightarrow> 'a" where
  "entry T i j = larray T ! (i * (gshape T ! 1) + j)"

definition lz_inv :: "nat \<Rightarrow> nat \<Rightarrow> 'a lanczos_state \<Rightarrow> bool" where
  "lz_inv n m st \<longleftrightarrow>
     vec_shaped n (lz_w st) \<and> mat_shaped m m (lz_T st) \<and> mat_shaped n m (lz_V st)"

definition tridiag_upto :: "nat \<Rightarrow> nat \<Rightarrow> 'a::zero DNDarray \<Rightarrow> bool" where
  "tridiag_upto m i T \<longleftrightarrow>
     (\<forall>a b. a < m \<and> b < m \<longrightarrow>
        entry T a b = entry T b a \<and>
        (a + 1 < b \<or> b + 1 < a \<or> i \<le> a \<or> i \<le> b \<longrightarrow> entry T a b = 0))"

definition v0_ok :: "nat \<Rightarrow> 'a DNDarray option \<Rightarrow> bool" where
  "v0_ok n v0 \<longleftrightarrow> (case v0 of None \<Rightarrow> True | Some v \<Rightarrow> vec_shaped n v)"

definition V_split :: "'a DNDarray \<Rightarrow> nat option" where
  "V_split A = (if split A = Some 0 then Some 0 else None)"

text \<open>
  Exact arithmetic over the reals, for running the model on concrete inputs: the
  drawn vectors and the split axes of results are left as parameters.
\<close>

definition exact ::
  "(nat \<Rightarrow> nat \<Rightarrow> real) \<Rightarrow> (string \<Rightarrow> real DNDarray \<Rightarrow> real DNDarray \<Rightarrow> nat option) \<Rightarrow> real backend" where
  "exact rnd sp = \<lparr>fsqrt = sqrt, tol = 1 / 10 ^ 10, rand_elem = rnd, res_split = sp\<rparr>"

definition unsplit_exact :: "real backend" where
  "unsplit_exact = exact (\<lambda>k j. 1 / 2) (\<lambda>nm s t. None)"

definition eye5 :: "real DNDarray" where
  "eye5 = \<lparr>gshape = [5, 5], split = None,
           larray = [1,0,0,0,0, 0,1,0,0,0, 0,0,1,0,0, 0,0,0,1,0, 0,0,0,0,1]\<rparr>"

definition b5 :: "real DNDarray" where
  "b5 = \<lparr>gshape = [5], split = None, larray = [1,2,3,4,5]\<rparr>"

definition z5 :: "real DNDarray" where
  "z5 = \<lparr>gshape = [5], split = None, larray = [0,0,0,0,0]\<rparr>"

text \<open>Concrete inputs for the instances below.\<close>

definition nonsym2 :: "real DNDarray" where
  "nonsym2 = \<lparr>gshape = [2, 2], split = Some 0, larray = [1, 2, 3, 4]\<rparr>"


definition e1 :: "real DNDarray" where
  "e1 = \<lparr>gshape = [2], split = None, larray = [1, 0]\<rparr>"

definition eye2 :: "real DNDarray" where
  "eye2 = \<lparr>gshape = [2, 2], split = None, larray = [1, 0, 0, 1]\<rparr>"

definition bad_out :: "real DNDarray" where
  "bad_out = \<lparr>gshape = [3], split = Some 0, larray = [7, 7, 7]\<rparr>"

definition two_datasets :: h5file where
  "two_datasets = [(''data'', 10), (''labels'', 9)]"

definition world :: MPICommunication where
  "world = \<lparr>comm_rank = 0, comm_size = 2\<rparr>"

text \<open>
  One rank and two ranks, with \<^verbatim>\<open>resplit_\<close> changing its receiver. The split axis of a
  vector result, as the tests assert it for \<^verbatim>\<open>matmul\<close> (\<^verbatim>\<open>test_basics.py\<close>, "splits 1 None"
  and "splits 0 None": the product of a split matrix and an unsplit vector has split 0,
  that of unsplit operands is unsplit) and taken to be the same for the element-wise
  operators: split when an operand is split. A draw of norm 1, and a symmetric positive
  definite matrix split along axis 1.
\<close>

definition one_rank :: "'a runtime" where
  "one_rank = \<lparr>ranks = 1, resplit_effect = resplit_inplace\<rparr>"

definition two_ranks :: "'a runtime" where
  "two_ranks = \<lparr>ranks = 2, resplit_effect = resplit_inplace\<rparr>"

definition vector_split_rule :: "string \<Rightarrow> 'a DNDarray \<Rightarrow> 'a DNDarray \<Rightarrow> nat option" where
  "vector_split_rule nm s t = (if split s \<noteq> None \<or> split t \<noteq> None then Some 0 else None)"

definition draw35 :: "nat \<Rightarrow> nat \<Rightarrow> real" where
  "draw35 k j = (if j = 0 then 3 / 5 else 4 / 5)"

definition diag21_split1 :: "real DNDarray" where
  "diag21_split1 = \<lparr>gshape = [2, 2], split = Some 1, larray = [2, 0, 0, 1]\<rparr>"

section \<open>Properties of cg\<close>

declare cg_loop.simps [simp del] lanczos_loop.simps [simp del]

lemma ebind_Inl [simp]: "ebind (Inl e) f = Inl e"
  by (simp add: ebind_def)

lemma ebind_Inr [simp]: "ebind (Inr v) f = f v"
  by (simp add: ebind_def)

subsection \<open>Shapes through the library operations\<close>

lemma item_scalar: "scalar_shaped a \<Longrightarrow> \<exists>c. item a = Inr c \<and> larray a = [c]"
  by (cases "larray a") (auto simp: scalar_shaped_def item_def split: list.splits)

lemma matmul_mat_vec:
  assumes "gshape A = [n, n]" "gshape p = [n]"
  shows "\<exists>q. matmul bk A p = Inr q \<and> gshape q = [n] \<and> length (larray q) = n"
  using assms by (simp add: matmul_def ndim_def)

lemma matmul_vec_vec:
  assumes "gshape u = [n]" "gshape v = [n]"
  shows "\<exists>s. matmul bk u v = Inr s \<and> scalar_shaped s"
  using assms by (simp add: matmul_def ndim_def scalar_shaped_def)

lemma binary_op_scalars:
  assumes "scalar_shaped s" "scalar_shaped t"
  shows "\<exists>q. binary_op bk nm f s t = Inr q \<and> scalar_shaped q"
  using assms by (simp add: binary_op_def scalar_shaped_def)

lemma binary_op_scalar_vec:
  assumes "scalar_shaped s" "gshape v = [n]"
  shows "\<exists>q. binary_op bk nm f s v = Inr q \<and> gshape q = [n] \<and> length (larray q) = length (larray v)"
  using assms item_scalar [OF assms(1)] by (auto simp: binary_op_def scalar_shaped_def)

lemma binary_op_vec_scalar:
  assumes "gshape v = [n]" "scalar_shaped s"
  shows "\<exists>q. binary_op bk nm f v s = Inr q \<and> gshape q = [n] \<and> length (larray q) = length (larray v)"
  using assms item_scalar [OF assms(2)] by (auto simp: binary_op_def scalar_shaped_def)

lemma binary_op_vecs:
  assumes "gshape u = [n]" "gshape v = [n]"
  shows "\<exists>q. binary_op bk nm f u v = Inr q \<and> gshape q = [n] \<and>
             length (larray q) = min (length (larray u)) (length (larray v))"
  using assms by (simp add: binary_op_def)

subsection \<open>The loop of cg\<close>

lemma cg_update_shapes:
  assumes A: "gshape A = [n, n]" and x: "gshape x = [n]" and r: "gshape r = [n]"
    and p: "gshape p = [n]" and rs: "scalar_shaped rsold"
  shows "\<exists>x' r' rsnew. cg_update bk A x r p rsold = Inr (x', r', rsnew) \<and>
           gshape x' = [n] \<and> gshape r' = [n] \<and> scalar_shaped rsnew"
proof -
  obtain Ap where Ap: "matmul bk A p = Inr Ap" "gshape Ap = [n]"
    using matmul_mat_vec [OF A p] by blast
  obtain pAp where pAp: "matmul bk p Ap = Inr pAp" "scalar_shaped pAp"
    using matmul_vec_vec [OF p Ap(2)] by blast
  obtain alpha where al: "truediv bk rsold pAp = Inr alpha" "scalar_shaped alpha"
    using binary_op_scalars [OF rs pAp(2)] unfolding truediv_def by blast
  obtain ap where ap: "mul bk alpha p = Inr ap" "gshape ap = [n]"
    using binary_op_scalar_vec [OF al(2) p] unfolding mul_def by blast
  obtain x' where x': "add bk x ap = Inr x'" "gshape x' = [n]"
    using binary_op_vecs [OF x ap(2)] unfolding add_def by blast
  obtain aAp where aAp: "mul bk alpha Ap = Inr aAp" "gshape aAp = [n]"
    using binary_op_scalar_vec [OF al(2) Ap(2)] unfolding mul_def by blast
  obtain r' where r': "sub bk r aAp = Inr r'" "gshape r' = [n]"
    using binary_op_vecs [OF r aAp(2)] unfolding sub_def by blast
  obtain rsnew where rsn: "matmul bk r' r' = Inr rsnew" "scalar_shaped rsnew"
    using matmul_vec_vec [OF r'(2) r'(2)] by blast
  show ?thesis
    by (simp add: cg_update_def Ap pAp al ap x' aAp r' rsn)
qed

lemma cg_direction_shapes:
  assumes r: "gshape r = [n]" and p: "gshape p = [n]"
    and rsn: "scalar_shaped rsnew" and rso: "scalar_shaped rsold"
  shows "\<exists>p'. cg_direction bk r p rsnew rsold = Inr p' \<and> gshape p' = [n]"
proof -
  obtain q where q: "truediv bk rsnew rsold = Inr q" "scalar_shaped q"
    using binary_op_scalars [OF rsn rso] unfolding truediv_def by blast
  obtain qp where qp: "mul bk q p = Inr qp" "gshape qp = [n]"
    using binary_op_scalar_vec [OF q(2) p] unfolding mul_def by blast
  obtain p' where p': "add bk r qp = Inr p'" "gshape p' = [n]"
    using binary_op_vecs [OF r qp(2)] unfolding add_def by blast
  show ?thesis
    by (simp add: cg_direction_def q qp p')
qed

lemma cg_converged_total:
  assumes "scalar_shaped rs"
  shows "\<exists>c. cg_converged bk rs = Inr c"
proof -
  have "scalar_shaped (ht_sqrt bk rs)"
    using assms by (simp add: scalar_shaped_def ht_sqrt_def)
  then obtain c where "item (ht_sqrt bk rs) = Inr c"
    using item_scalar by blast
  then show ?thesis by (simp add: cg_converged_def)
qed

lemma cg_start_ok:
  assumes A: "gshape A = [n, n]" and b: "gshape b = [n]" and x0: "gshape x0 = [n]"
  shows "\<exists>st. cg_start bk A b x0 = Inr st \<and> cg_state_ok n st \<and> fst st = x0"
proof -
  obtain q where q: "matmul bk A x0 = Inr q" "gshape q = [n]"
    using matmul_mat_vec [OF A x0] by blast
  obtain r where r: "sub bk b q = Inr r" "gshape r = [n]"
    using binary_op_vecs [OF b q(2)] unfolding sub_def by blast
  obtain rs where rs: "matmul bk r r = Inr rs" "scalar_shaped rs"
    using matmul_vec_vec [OF r(2) r(2)] by blast
  show ?thesis
    by (simp add: cg_start_def q r rs cg_state_ok_def x0)
qed

text \<open>
  The invariant of the loop, entered at index \<open>i\<close> in a state of the right shapes: it
  returns after \<open>k - i\<close> more passes, with the \<open>x\<close> of that pass, at the first pass whose
  residual passes the test, or at index \<open>n\<close>.
\<close>

lemma cg_loop_run:
  "gshape A = [n, n] \<Longrightarrow> i \<le> n \<Longrightarrow> cg_state_ok n (x, r, p, rsold) \<Longrightarrow>
    \<exists>y pr k st. cg_loop bk A n i x r p rsold = Inr (y, pr, k) \<and> i \<le> k \<and> k \<le> n \<and>
       cg_after bk A (k - i) (x, r, p, rsold) = Inr st \<and> fst st = y \<and>
       (\<forall>j. 0 < j \<and> j < k - i \<longrightarrow> \<not> cg_reached bk A (x, r, p, rsold) j) \<and>
       (pr = None \<and> k = n \<and> (i < n \<longrightarrow> \<not> cg_reached bk A (x, r, p, rsold) (n - i)) \<or>
        pr = Some (k - 1) \<and> i < k \<and> cg_reached bk A (x, r, p, rsold) (k - i))"
proof (induction bk A n i x r p rsold rule: cg_loop.induct)
  case (1 bk A n i x r p rsold)
  note ok = \<open>cg_state_ok n (x, r, p, rsold)\<close> and A = \<open>gshape A = [n, n]\<close>
  show ?case
  proof (cases "i < n")
    case False
    with "1.prems" have "i = n" by simp
    then show ?thesis by (simp add: cg_loop.simps [of bk A n n])
  next
    case True
    from ok have sh: "gshape x = [n]" "gshape r = [n]" "gshape p = [n]" "scalar_shaped rsold"
      by (simp_all add: cg_state_ok_def)
    obtain x' r' rsnew where up: "cg_update bk A x r p rsold = Inr (x', r', rsnew)"
      "gshape x' = [n]" "gshape r' = [n]" "scalar_shaped rsnew"
      using cg_update_shapes [OF A sh] by blast
    obtain c where c: "cg_converged bk rsnew = Inr c"
      using cg_converged_total [OF up(4)] by blast
    obtain p' where dir: "cg_direction bk r' p rsnew rsold = Inr p'" "gshape p' = [n]"
      using cg_direction_shapes [OF up(3) sh(3) up(4) sh(4)] by blast
    have pass: "cg_pass bk A (x, r, p, rsold) = Inr (x', r', p', rsnew)"
      by (simp add: cg_pass_def up dir)
    have reached1: "cg_reached bk A (x, r, p, rsold) (Suc 0) = c"
      by (simp add: cg_reached_def pass c)
    have reachedS: "cg_reached bk A (x, r, p, rsold) (Suc j) = cg_reached bk A (x', r', p', rsnew) j" for j
      by (simp add: cg_reached_def pass)
    show ?thesis
    proof (cases c)
      case True
      with \<open>i < n\<close> up c pass reached1 show ?thesis
        by (simp add: cg_loop.simps [of bk A n i])
    next
      case False
      have ok': "cg_state_ok n (x', r', p', rsnew)"
        by (simp add: cg_state_ok_def up dir)
      from \<open>i < n\<close> have le: "Suc i \<le> n" by simp
      from "1.IH" [OF \<open>i < n\<close> up(1) refl refl c False dir(1) A le ok']
      obtain y pr k st where ih:
        "cg_loop bk A n (Suc i) x' r' p' rsnew = Inr (y, pr, k)" "Suc i \<le> k" "k \<le> n"
        "cg_after bk A (k - Suc i) (x', r', p', rsnew) = Inr st" "fst st = y"
        "\<forall>j. 0 < j \<and> j < k - Suc i \<longrightarrow> \<not> cg_reached bk A (x', r', p', rsnew) j"
        "pr = None \<and> k = n \<and> (Suc i < n \<longrightarrow> \<not> cg_reached bk A (x', r', p', rsnew) (n - Suc i)) \<or>
         pr = Some (k - 1) \<and> Suc i < k \<and> cg_reached bk A (x', r', p', rsnew) (k - Suc i)"
        by blast
      have loop: "cg_loop bk A n i x r p rsold = Inr (y, pr, k)"
        using \<open>i < n\<close> up c False dir ih(1) by (simp add: cg_loop.simps [of bk A n i])
      have ki: "k - i = Suc (k - Suc i)" using ih(2) by simp
      have after: "cg_after bk A (k - i) (x, r, p, rsold) = Inr st"
        by (simp add: ki pass ih(4))
      have nr: "\<forall>j. 0 < j \<and> j < k - i \<longrightarrow> \<not> cg_reached bk A (x, r, p, rsold) j"
      proof (intro allI impI)
        fix j assume j: "0 < j \<and> j < k - i"
        then obtain j' where j': "j = Suc j'" by (cases j) auto
        show "\<not> cg_reached bk A (x, r, p, rsold) j"
        proof (cases j')
          case 0
          with j' reached1 False show ?thesis by simp
        next
          case (Suc m)
          with j j' ki have "0 < j' \<and> j' < k - Suc i" by simp
          with ih(6) have "\<not> cg_reached bk A (x', r', p', rsnew) j'" by blast
          with j' reachedS show ?thesis by simp
        qed
      qed
      have last: "pr = None \<and> k = n \<and> (i < n \<longrightarrow> \<not> cg_reached bk A (x, r, p, rsold) (n - i)) \<or>
        pr = Some (k - 1) \<and> i < k \<and> cg_reached bk A (x, r, p, rsold) (k - i)"
      proof -
        from ih(7) show ?thesis
        proof (elim disjE conjE)
          assume a: "pr = None" "k = n" "Suc i < n \<longrightarrow> \<not> cg_reached bk A (x', r', p', rsnew) (n - Suc i)"
          have "\<not> cg_reached bk A (x, r, p, rsold) (n - i)"
          proof (cases "Suc i < n")
            case True
            with a(3) have "\<not> cg_reached bk A (x', r', p', rsnew) (n - Suc i)" by simp
            moreover have "n - i = Suc (n - Suc i)" using \<open>i < n\<close> by simp
            ultimately show ?thesis using reachedS by simp
          next
            case False
            with \<open>i < n\<close> have "n - i = Suc 0" by simp
            with reached1 \<open>\<not> c\<close> show ?thesis by simp
          qed
          with a show ?thesis by simp
        next
          assume a: "pr = Some (k - 1)" "Suc i < k" "cg_reached bk A (x', r', p', rsnew) (k - Suc i)"
          then have "cg_reached bk A (x, r, p, rsold) (k - i)"
            using ki reachedS by simp
          with a show ?thesis by simp
        qed
      qed
      from loop ih(2) ih(3) after ih(5) nr last show ?thesis
        by (intro exI [of _ y] exI [of _ pr] exI [of _ k] exI [of _ st]) simp
    qed
  qed
qed

text \<open>
  C1. For arrays of matching shapes (\<open>A\<close> is \<open>n \<times> n\<close>, \<open>b\<close> and \<open>x0\<close> have length
  \<open>n = len(b)\<close>) and whatever the arithmetic returns, \<open>cg\<close> returns a result and raises
  nothing. The loop body runs \<open>passes\<close> times, at most \<open>n\<close>. No pass before the last
  one passed the test \<^verbatim>\<open>sqrt(rsnew) < 1e-10\<close>. Either the last pass did: then its index
  was printed and the \<open>x\<close> of that pass is returned; or no pass did: then the body ran
  \<open>n\<close> times, nothing was printed and the \<open>x\<close> of the last pass is returned (\<open>x0\<close> itself
  when \<open>n = 0\<close>), as a normal result.
\<close>

theorem cg_bounded_iterations:
  assumes "gshape A = [n, n]" and "gshape b = [n]" and "gshape x0 = [n]"
  shows "\<exists>res st0 st.
           cg bk (Arr A) (Arr b) (Arr x0) out = Inr res \<and> len b = Inr n \<and>
           cg_start bk A b x0 = Inr st0 \<and> fst st0 = x0 \<and>
           passes res \<le> n \<and>
           cg_after bk A (passes res) st0 = Inr st \<and> returned res = fst st \<and>
           (\<forall>j. 0 < j \<and> j < passes res \<longrightarrow> \<not> cg_reached bk A st0 j) \<and>
           (printed res = None \<and> passes res = n \<and> (0 < n \<longrightarrow> \<not> cg_reached bk A st0 n) \<or>
            printed res = Some (passes res - 1) \<and> 0 < passes res \<and>
            cg_reached bk A st0 (passes res))"
proof -
  obtain st0 where st0: "cg_start bk A b x0 = Inr st0" "cg_state_ok n st0" "fst st0 = x0"
    using cg_start_ok [OF assms] by blast
  obtain x r p rsold where st0_eq: "st0 = (x, r, p, rsold)"
    by (cases st0) auto
  have ok: "cg_state_ok n (x, r, p, rsold)"
    using st0(2) st0_eq by simp
  obtain y pr k st where run:
    "cg_loop bk A n 0 x r p rsold = Inr (y, pr, k)" "k \<le> n"
    "cg_after bk A (k - 0) (x, r, p, rsold) = Inr st" "fst st = y"
    "\<forall>j. 0 < j \<and> j < k - 0 \<longrightarrow> \<not> cg_reached bk A (x, r, p, rsold) j"
    "pr = None \<and> k = n \<and> (0 < n \<longrightarrow> \<not> cg_reached bk A (x, r, p, rsold) (n - 0)) \<or>
     pr = Some (k - 1) \<and> 0 < k \<and> cg_reached bk A (x, r, p, rsold) (k - 0)"
    using cg_loop_run [OF assms(1) le0 ok, of bk] by blast
  have checks: "cg_checks (Arr A) (Arr b) (Arr x0) = None"
    using assms by (simp add: cg_checks_def ndim_def)
  have lenb: "len b = Inr n"
    using assms(2) by (simp add: len_def)
  have call: "cg bk (Arr A) (Arr b) (Arr x0) out =
      Inr \<lparr>returned = y, printed = pr, passes = k, out_after = out\<rparr>"
    by (simp add: cg_def checks st0(1) st0_eq lenb run(1))
  show ?thesis
    using call lenb st0(1) st0(3) run(2-6) unfolding st0_eq
    by (intro exI [of _ "\<lparr>returned = y, printed = pr, passes = k, out_after = out\<rparr>"]
        exI [of _ "(x, r, p, rsold)"] exI [of _ st]) simp
qed

theorem cg_bounded_iterations_witness:
  "gshape eye5 = [5, 5] \<and> gshape b5 = [5] \<and> gshape z5 = [5] \<and>
   (\<exists>res st0 st.
      cg unsplit_exact (Arr eye5) (Arr b5) (Arr z5) None = Inr res \<and> len b5 = Inr 5 \<and>
      cg_start unsplit_exact eye5 b5 z5 = Inr st0 \<and> fst st0 = z5 \<and>
      passes res \<le> 5 \<and>
      cg_after unsplit_exact eye5 (passes res) st0 = Inr st \<and> returned res = fst st \<and>
      (\<forall>j. 0 < j \<and> j < passes res \<longrightarrow> \<not> cg_reached unsplit_exact eye5 st0 j) \<and>
      (printed res = None \<and> passes res = 5 \<and>
         ((0::nat) < 5 \<longrightarrow> \<not> cg_reached unsplit_exact eye5 st0 5) \<or>
       printed res = Some (passes res - 1) \<and> 0 < passes res \<and>
       cg_reached unsplit_exact eye5 st0 (passes res)))"
proof -
  have h: "gshape eye5 = [5, 5]" "gshape b5 = [5]" "gshape z5 = [5]"
    by (simp_all add: eye5_def b5_def z5_def)
  show ?thesis
    using h cg_bounded_iterations [OF h, of unsplit_exact None] by simp
qed

text \<open>
  C2. With exact arithmetic, \<open>A\<close> the 5 by 5 identity, \<open>b = [1,2,3,4,5]\<close> and \<open>x0\<close> zero,
  the residual after the first update is zero, the test passes in the first pass
  (index 0 is printed, the body ran once) and the vector returned has the elements
  of \<open>b\<close>. Every intermediate value is a small integer.
\<close>

theorem cg_identity_scenario:
  "\<exists>res x r p rsold x' r' rsnew.
     cg (exact rnd sp) (Arr eye5) (Arr b5) (Arr z5) out = Inr res \<and>
     passes res = 1 \<and> printed res = Some 0 \<and>
     gshape (returned res) = gshape b5 \<and> larray (returned res) = larray b5 \<and>
     cg_start (exact rnd sp) eye5 b5 z5 = Inr (x, r, p, rsold) \<and>
     cg_update (exact rnd sp) eye5 x r p rsold = Inr (x', r', rsnew) \<and>
     larray r' = [0, 0, 0, 0, 0] \<and> larray rsnew = [0]"
  by (simp add: cg_def cg_checks_def cg_start_def matmul_def ndim_def eye5_def z5_def b5_def
      exact_def dot_list_def row_def upt_conv_Cons sub_def binary_op_def len_def cg_update_def
      truediv_def item_def mul_def add_def cg_converged_def ht_sqrt_def cg_loop.simps)

text \<open>
  C7. When one of \<open>A\<close>, \<open>b\<close>, \<open>x0\<close> is not a \<^verbatim>\<open>DNDarray\<close>, \<open>cg\<close> raises \<^verbatim>\<open>TypeError\<close>;
  when all three are arrays and \<open>A\<close> is not 2-D or \<open>b\<close> or \<open>x0\<close> is not 1-D, it raises
  the dimension error of the source, a \<^verbatim>\<open>RuntimeError\<close>. In both cases the error is the
  one the argument checks of lines 28 to 40 give, so nothing of the solver ran.
\<close>

theorem cg_argument_errors:
  "(\<not> isinstance_DNDarray A \<or> \<not> isinstance_DNDarray b \<or> \<not> isinstance_DNDarray x0 \<longrightarrow>
      cg_checks A b x0 = Some (TypeError ''A, b and x0 need to be of type ht.DNDarray'') \<and>
      cg bk A b x0 out = Inl (TypeError ''A, b and x0 need to be of type ht.DNDarray'')) \<and>
   (ndim A' \<noteq> 2 \<or> ndim b' \<noteq> 1 \<or> ndim x0' \<noteq> 1 \<longrightarrow>
      (\<exists>msg. cg_checks (Arr A') (Arr b') (Arr x0') = Some (RuntimeError msg) \<and>
             cg bk (Arr A') (Arr b') (Arr x0') out = Inl (RuntimeError msg)))"
  by (simp add: cg_def cg_checks_def)

theorem cg_argument_errors_witness:
  "\<not> isinstance_DNDarray (IntV 3 :: real pyval) \<and>
   cg unsplit_exact (IntV 3) (Arr b5) (Arr z5) None =
     Inl (TypeError ''A, b and x0 need to be of type ht.DNDarray'') \<and>
   ndim b5 \<noteq> 2 \<and>
   (\<exists>msg. cg unsplit_exact (Arr b5) (Arr b5) (Arr z5) None = Inl (RuntimeError msg))"
  using cg_argument_errors [of "IntV 3" "Arr b5" "Arr z5" unsplit_exact None b5 b5 z5]
  by (auto simp: ndim_def b5_def)

section \<open>Properties of lanczos\<close>

lemma index_less: "i < n \<Longrightarrow> j < m \<Longrightarrow> i * m + j < n * (m::nat)"
proof -
  assume a: "i < n" "j < m"
  then have "i * m + j < i * m + m" by simp
  also have "\<dots> = Suc i * m" by simp
  also have "\<dots> \<le> n * m" using a(1) by (intro mult_le_mono1) simp
  finally show ?thesis .
qed

lemma index_inj:
  assumes "j < m" "j' < m" "i * m + j = i' * m + (j'::nat)"
  shows "i = i' \<and> j = j'"
proof -
  have "(i * m + j) div m = i" "(i * m + j) mod m = j" using assms(1) by simp_all
  moreover have "(i' * m + j') div m = i'" "(i' * m + j') mod m = j'" using assms(2) by simp_all
  ultimately show ?thesis using assms(3) by metis
qed

lemma scalar_item: "scalar_shaped a \<Longrightarrow> \<exists>c. item a = Inr c"
  using item_scalar by blast

lemma setitem_ok:
  assumes T: "mat_shaped m m T" and i: "i < m" and j: "j < m" and v: "item v = Inr c"
  shows "\<exists>T'. setitem T i j v = Inr T' \<and> mat_shaped m m T' \<and> split T' = split T \<and>
           (\<forall>a b. a < m \<and> b < m \<longrightarrow> entry T' a b = (if a = i \<and> b = j then c else entry T a b))"
proof -
  from T have g: "gshape T = [m, m]" and l: "length (larray T) = m * m"
    by (simp_all add: mat_shaped_def)
  let ?T' = "T\<lparr>larray := (larray T)[i * m + j := c]\<rparr>"
  have s: "setitem T i j v = Inr ?T'"
    using g i j v by (simp add: setitem_def ndim_def)
  have e: "entry ?T' a b = (if a = i \<and> b = j then c else entry T a b)" if "a < m" "b < m" for a b
  proof -
    have lt: "a * m + b < length (larray T)" using that l index_less by metis
    show ?thesis
    proof (cases "a = i \<and> b = j")
      case True
      then show ?thesis using lt by (simp add: entry_def g)
    next
      case False
      then have "i * m + j \<noteq> a * m + b" using index_inj [OF j that(2)] by blast
      with False show ?thesis by (auto simp: entry_def g)
    qed
  qed
  show ?thesis using s g l e by (simp add: mat_shaped_def)
qed

lemma col_length [simp]: "length (col n m xs j) = n"
  by (simp add: col_def)

lemma torch_col_ok:
  assumes "gshape V = [n, m]" "j < m"
  shows "torch_col V j = Inr (col n m (larray V) j)"
  using assms by (simp add: torch_col_def ndim_def)

lemma setcol_ok:
  assumes V: "mat_shaped n m V" and j: "j < m" and v: "vec_shaped n v"
  shows "\<exists>V'. setcol V j v = Inr V' \<and> mat_shaped n m V' \<and> split V' = split V \<and>
           torch_col V' j = Inr (larray v) \<and>
           (\<forall>j'. j' < m \<and> j' \<noteq> j \<longrightarrow> torch_col V' j' = torch_col V j')"
proof -
  from V have g: "gshape V = [n, m]" and l: "length (larray V) = n * m"
    by (simp_all add: mat_shaped_def)
  from v have gv: "gshape v = [n]" and lv: "length (larray v) = n"
    by (simp_all add: vec_shaped_def)
  let ?xs = "map (\<lambda>k. if k mod m = j then larray v ! (k div m) else larray V ! k)
                 [0..<length (larray V)]"
  let ?V' = "V\<lparr>larray := ?xs\<rparr>"
  have s: "setcol V j v = Inr ?V'"
    using g gv j by (simp add: setcol_def ndim_def)
  have nth: "?xs ! (i * m + j') = (if j' = j then larray v ! i else larray V ! (i * m + j'))"
    if "i < n" "j' < m" for i j'
  proof -
    have lt: "i * m + j' < length (larray V)" using that l index_less by metis
    then show ?thesis using that by simp
  qed
  have c1: "col n m ?xs j = larray v"
  proof -
    have "col n m ?xs j = map (\<lambda>i. larray v ! i) [0..<n]"
      unfolding col_def using nth j by (intro map_cong) auto
    also have "\<dots> = larray v" using lv map_nth [of "larray v"] by simp
    finally show ?thesis .
  qed
  have c2: "col n m ?xs j' = col n m (larray V) j'" if "j' < m" "j' \<noteq> j" for j'
    unfolding col_def using nth that by (intro map_cong) auto
  have t1: "torch_col ?V' j = Inr (larray v)"
    using torch_col_ok [of ?V' n m j] g j c1 by simp
  have t2: "torch_col ?V' j' = torch_col V j'" if "j' < m" "j' \<noteq> j" for j'
    using torch_col_ok [of ?V' n m j'] torch_col_ok [of V n m j'] g that c2 by simp
  show ?thesis using s g l t1 t2 by (simp add: mat_shaped_def)
qed


lemma vec_binary_op:
  assumes "vec_shaped n u" "vec_shaped n v"
  shows "\<exists>q. binary_op bk nm f u v = Inr q \<and> vec_shaped n q"
  using assms by (simp add: binary_op_def vec_shaped_def)

lemma scalar_vec_binary_op:
  assumes "scalar_shaped s" "vec_shaped n v"
  shows "\<exists>q. binary_op bk nm f s v = Inr q \<and> vec_shaped n q"
  using assms item_scalar [OF assms(1)] by (auto simp: binary_op_def scalar_shaped_def vec_shaped_def)

lemma vec_scalar_binary_op:
  assumes "vec_shaped n v" "scalar_shaped s"
  shows "\<exists>q. binary_op bk nm f v s = Inr q \<and> vec_shaped n q"
  using assms item_scalar [OF assms(2)] by (auto simp: binary_op_def scalar_shaped_def vec_shaped_def)

lemma matmul_vec_ok:
  assumes "gshape A = [n, n]" "vec_shaped n v"
  shows "\<exists>q. matmul bk A v = Inr q \<and> vec_shaped n q"
  using assms by (simp add: matmul_def ndim_def vec_shaped_def)

lemma ht_dot_ok:
  assumes "vec_shaped n a" "vec_shaped n b"
  shows "\<exists>s. ht_dot a b = Inr s \<and> scalar_shaped s"
  using assms by (simp add: ht_dot_def ndim_def vec_shaped_def scalar_shaped_def)

lemma ht_norm_scalar [simp]: "scalar_shaped (ht_norm bk a)"
  by (simp add: ht_norm_def scalar_shaped_def)

lemma rand_vec [simp]: "vec_shaped n (ht_random_rand bk k n sp)"
  by (simp add: ht_random_rand_def vec_shaped_def)

lemma normalise_ok:
  assumes "vec_shaped n vr"
  shows "\<exists>vi. truediv bk vr (ht_norm bk vr) = Inr vi \<and> vec_shaped n vi"
  unfolding truediv_def using vec_scalar_binary_op [OF assms ht_norm_scalar] by blast

lemma reorth_step_ok:
  assumes V: "gshape V = [n, m]" and j: "j < m" and vr: "vec_shaped n vr"
  shows "\<exists>vr'. reorth_step V vr j = Inr vr' \<and> vec_shaped n vr'"
  using vr by (simp add: reorth_step_def torch_col_ok [OF V j] torch_dot_def vec_shaped_def)

lemma reorth_loop_ok:
  assumes V: "gshape V = [n, m]"
  shows "\<forall>j \<in> set js. j < m \<Longrightarrow> vec_shaped n vr \<Longrightarrow>
         \<exists>vr'. reorth_loop V js vr = Inr vr' \<and> vec_shaped n vr'"
proof (induction js arbitrary: vr)
  case Nil
  then show ?case by simp
next
  case (Cons j js)
  then have j: "j < m" by simp
  obtain vr1 where s: "reorth_step V vr j = Inr vr1" "vec_shaped n vr1"
    using reorth_step_ok [OF V j Cons.prems(2)] by blast
  from Cons.IH [OF _ s(2)] Cons.prems(1) s(1) show ?case by simp
qed

lemma lanczos_candidate_ok:
  assumes V: "gshape V = [n, m]" and i: "i < m" and w: "vec_shaped n w"
  shows "\<exists>beta vi d. lanczos_candidate bk n i w V draws = Inr (beta, vi, d) \<and>
           scalar_shaped beta \<and> vec_shaped n vi"
proof -
  obtain c where c: "item (ht_norm bk w) = Inr c"
    using scalar_item [OF ht_norm_scalar] by blast
  have js: "\<forall>j \<in> set [0..<i]. j < m" using i by simp
  show ?thesis
  proof (cases "abs c < tol bk")
    case True
    obtain vr where vr: "reorth_loop V [0..<i] (ht_random_rand bk draws n (split V)) = Inr vr"
      "vec_shaped n vr"
      using reorth_loop_ok [OF V js rand_vec] by blast
    obtain vi where vi: "truediv bk vr (ht_norm bk vr) = Inr vi" "vec_shaped n vi"
      using normalise_ok [OF vr(2)] by blast
    show ?thesis by (simp add: lanczos_candidate_def c True vr vi)
  next
    case False
    obtain vr where vr: "reorth_loop V [0..<i] w = Inr vr" "vec_shaped n vr"
      using reorth_loop_ok [OF V js w] by blast
    obtain vi where vi: "truediv bk vr (ht_norm bk vr) = Inr vi" "vec_shaped n vi"
      using normalise_ok [OF vr(2)] by blast
    show ?thesis by (simp add: lanczos_candidate_def c False vr vi)
  qed
qed

lemma getcol_ok:
  assumes "gshape V = [n, m]" "j < m"
  shows "\<exists>c. getcol bk V j = Inr c \<and> vec_shaped n c"
  using assms by (simp add: getcol_def torch_col_ok [OF assms] vec_shaped_def)

lemma lanczos_recurrence_ok:
  assumes A: "gshape A = [n, n]" and V: "gshape V = [n, m]" and i: "i < m"
    and beta: "scalar_shaped beta" and vi: "vec_shaped n vi"
  shows "\<exists>w alpha. lanczos_recurrence bk A i beta vi V = Inr (w, alpha) \<and>
           vec_shaped n w \<and> scalar_shaped alpha"
proof -
  obtain w0 where w0: "matmul bk A vi = Inr w0" "vec_shaped n w0"
    using matmul_vec_ok [OF A vi] by blast
  obtain alpha where al: "ht_dot w0 vi = Inr alpha" "scalar_shaped alpha"
    using ht_dot_ok [OF w0(2) vi] by blast
  obtain avi where avi: "mul bk alpha vi = Inr avi" "vec_shaped n avi"
    using scalar_vec_binary_op [OF al(2) vi] unfolding mul_def by blast
  obtain w1 where w1: "sub bk w0 avi = Inr w1" "vec_shaped n w1"
    using vec_binary_op [OF w0(2) avi(2)] unfolding sub_def by blast
  have "i - 1 < m" using i by simp
  then obtain vp where vp: "getcol bk V (i - 1) = Inr vp" "vec_shaped n vp"
    using getcol_ok [OF V] by blast
  obtain bv where bv: "mul bk beta vp = Inr bv" "vec_shaped n bv"
    using scalar_vec_binary_op [OF beta vp(2)] unfolding mul_def by blast
  obtain w2 where w2: "sub bk w1 bv = Inr w2" "vec_shaped n w2"
    using vec_binary_op [OF w1(2) bv(2)] unfolding sub_def by blast
  have "lanczos_recurrence bk A i beta vi V = Inr (w2, alpha)"
    by (simp add: lanczos_recurrence_def w0 al avi w1 vp bv w2 del: One_nat_def)
  then show ?thesis using w2(2) al(2) by blast
qed

lemma lanczos_store_ok:
  assumes T: "mat_shaped m m T" and V: "mat_shaped n m V" and i0: "0 < i" and i: "i < m"
    and cb: "item beta = Inr cb" and ca: "item alpha = Inr ca" and vi: "vec_shaped n vi"
  shows "\<exists>T' V'. lanczos_store i beta alpha vi T V = Inr (T', V') \<and>
           mat_shaped m m T' \<and> mat_shaped n m V' \<and> split V' = split V \<and>
           (\<forall>a b. a < m \<and> b < m \<longrightarrow>
              entry T' a b = (if a = i \<and> b = i then ca
                              else if (a = i - 1 \<and> b = i) \<or> (a = i \<and> b = i - 1) then cb
                              else entry T a b)) \<and>
           torch_col V' i = Inr (larray vi) \<and>
           (\<forall>j. j < m \<and> j \<noteq> i \<longrightarrow> torch_col V' j = torch_col V j)"
proof -
  have i1: "i - 1 < m" using i by simp
  obtain T1 where T1: "setitem T (i - 1) i beta = Inr T1" "mat_shaped m m T1"
    "\<forall>a b. a < m \<and> b < m \<longrightarrow> entry T1 a b = (if a = i - 1 \<and> b = i then cb else entry T a b)"
    using setitem_ok [OF T i1 i cb] by blast
  obtain T2 where T2: "setitem T1 i (i - 1) beta = Inr T2" "mat_shaped m m T2"
    "\<forall>a b. a < m \<and> b < m \<longrightarrow> entry T2 a b = (if a = i \<and> b = i - 1 then cb else entry T1 a b)"
    using setitem_ok [OF T1(2) i i1 cb] by blast
  obtain T3 where T3: "setitem T2 i i alpha = Inr T3" "mat_shaped m m T3"
    "\<forall>a b. a < m \<and> b < m \<longrightarrow> entry T3 a b = (if a = i \<and> b = i then ca else entry T2 a b)"
    using setitem_ok [OF T2(2) i i ca] by blast
  obtain V1 where V1: "setcol V i vi = Inr V1" "mat_shaped n m V1" "split V1 = split V"
    "torch_col V1 i = Inr (larray vi)"
    "\<forall>j. j < m \<and> j \<noteq> i \<longrightarrow> torch_col V1 j = torch_col V j"
    using setcol_ok [OF V i vi] by blast
  have e: "entry T3 a b = (if a = i \<and> b = i then ca
                           else if (a = i - 1 \<and> b = i) \<or> (a = i \<and> b = i - 1) then cb
                           else entry T a b)" if "a < m" "b < m" for a b
    using that T1(3) T2(3) T3(3) by auto
  have "lanczos_store i beta alpha vi T V = Inr (T3, V1)"
    by (simp add: lanczos_store_def T1(1) T2(1) T3(1) V1(1) del: One_nat_def)
  then show ?thesis using T3(2) V1(2-5) e by blast
qed

lemma lanczos_step_ok:
  assumes A: "gshape A = [n, n]" and i0: "0 < i" and i: "i < m" and inv: "lz_inv n m st"
  shows "\<exists>st' beta alpha vi cb ca.
           lanczos_step bk A n i st = Inr st' \<and> lz_inv n m st' \<and>
           split (lz_V st') = split (lz_V st) \<and>
           lz_coef st' = Some (beta, alpha, vi) \<and>
           item beta = Inr cb \<and> item alpha = Inr ca \<and> vec_shaped n vi \<and>
           (\<forall>a b. a < m \<and> b < m \<longrightarrow>
              entry (lz_T st') a b = (if a = i \<and> b = i then ca
                              else if (a = i - 1 \<and> b = i) \<or> (a = i \<and> b = i - 1) then cb
                              else entry (lz_T st) a b)) \<and>
           torch_col (lz_V st') i = Inr (larray vi) \<and>
           (\<forall>j. j < m \<and> j \<noteq> i \<longrightarrow> torch_col (lz_V st') j = torch_col (lz_V st) j)"
proof -
  from inv have w: "vec_shaped n (lz_w st)" and T: "mat_shaped m m (lz_T st)"
    and V: "mat_shaped n m (lz_V st)"
    by (simp_all add: lz_inv_def)
  from V have gV: "gshape (lz_V st) = [n, m]" by (simp add: mat_shaped_def)
  obtain beta vi d where cand:
    "lanczos_candidate bk n i (lz_w st) (lz_V st) (lz_draws st) = Inr (beta, vi, d)"
    "scalar_shaped beta" "vec_shaped n vi"
    using lanczos_candidate_ok [OF gV i w] by blast
  obtain w' alpha where rec: "lanczos_recurrence bk A i beta vi (lz_V st) = Inr (w', alpha)"
    "vec_shaped n w'" "scalar_shaped alpha"
    using lanczos_recurrence_ok [OF A gV i cand(2) cand(3)] by blast
  obtain cb where cb: "item beta = Inr cb" using scalar_item [OF cand(2)] by blast
  obtain ca where ca: "item alpha = Inr ca" using scalar_item [OF rec(3)] by blast
  obtain T' V' where st: "lanczos_store i beta alpha vi (lz_T st) (lz_V st) = Inr (T', V')"
    "mat_shaped m m T'" "mat_shaped n m V'" "split V' = split (lz_V st)"
    "\<forall>a b. a < m \<and> b < m \<longrightarrow>
              entry T' a b = (if a = i \<and> b = i then ca
                              else if (a = i - 1 \<and> b = i) \<or> (a = i \<and> b = i - 1) then cb
                              else entry (lz_T st) a b)"
    "torch_col V' i = Inr (larray vi)"
    "\<forall>j. j < m \<and> j \<noteq> i \<longrightarrow> torch_col V' j = torch_col (lz_V st) j"
    using lanczos_store_ok [OF T V i0 i cb ca cand(3)] by blast
  let ?st' = "\<lparr>lz_w = w', lz_T = T', lz_V = V', lz_draws = d, lz_coef = Some (beta, alpha, vi)\<rparr>"
  have s: "lanczos_step bk A n i st = Inr ?st'"
    by (simp add: lanczos_step_def cand(1) rec(1) st(1))
  have inv': "lz_inv n m ?st'"
    by (simp add: lz_inv_def rec(2) st(2) st(3))
  show ?thesis
    using s inv' st(4-7) cb ca cand(3)
    by (intro exI [of _ ?st'] exI [of _ beta] exI [of _ alpha] exI [of _ vi]
        exI [of _ cb] exI [of _ ca]) simp
qed

lemma tridiag_step:
  assumes t: "tridiag_upto m i T" and i0: "0 < i" and i: "i < m"
    and e: "\<forall>a b. a < m \<and> b < m \<longrightarrow>
              entry T' a b = (if a = i \<and> b = i then ca
                              else if (a = i - 1 \<and> b = i) \<or> (a = i \<and> b = i - 1) then cb
                              else entry T a b)"
  shows "tridiag_upto m (Suc i) T'"
  unfolding tridiag_upto_def
proof (intro allI impI)
  fix a b assume ab: "a < m \<and> b < m"
  then have ba: "b < m \<and> a < m" by simp
  from e ab have eab: "entry T' a b = (if a = i \<and> b = i then ca
                              else if (a = i - 1 \<and> b = i) \<or> (a = i \<and> b = i - 1) then cb
                              else entry T a b)" by blast
  from e ba have eba: "entry T' b a = (if b = i \<and> a = i then ca
                              else if (b = i - 1 \<and> a = i) \<or> (b = i \<and> a = i - 1) then cb
                              else entry T b a)" by blast
  from t ab have sym: "entry T a b = entry T b a"
    and z: "a + 1 < b \<or> b + 1 < a \<or> i \<le> a \<or> i \<le> b \<longrightarrow> entry T a b = 0"
    by (simp_all add: tridiag_upto_def)
  have c1: "entry T' a b = entry T' b a"
    using eab eba sym by auto
  have c2: "entry T' a b = 0" if h: "a + 1 < b \<or> b + 1 < a \<or> Suc i \<le> a \<or> Suc i \<le> b"
  proof -
    from h i0 have n1: "\<not> (a = i \<and> b = i)"
      and n2: "\<not> ((a = i - 1 \<and> b = i) \<or> (a = i \<and> b = i - 1))"
      by auto
    have "entry T' a b = entry T a b"
      by (subst eab, subst if_not_P [OF n1], subst if_not_P [OF n2], rule refl)
    moreover from h have "a + 1 < b \<or> b + 1 < a \<or> i \<le> a \<or> i \<le> b" by auto
    ultimately show ?thesis using z by simp
  qed
  show "entry T' a b = entry T' b a \<and>
        (a + 1 < b \<or> b + 1 < a \<or> Suc i \<le> a \<or> Suc i \<le> b \<longrightarrow> entry T' a b = 0)"
    using c1 c2 by blast
qed

lemma lanczos_loop_ok:
  "gshape A = [n, n] \<Longrightarrow> 0 < i \<Longrightarrow> i \<le> k \<Longrightarrow> k \<le> m \<Longrightarrow> lz_inv n m st \<Longrightarrow>
   tridiag_upto m i (lz_T st) \<Longrightarrow>
   \<exists>st'. lanczos_loop bk A n i k st = Inr st' \<and> lz_inv n m st' \<and>
      tridiag_upto m k (lz_T st') \<and> split (lz_V st') = split (lz_V st) \<and>
      (\<forall>a b. a < i \<and> b < i \<longrightarrow> entry (lz_T st') a b = entry (lz_T st) a b) \<and>
      (\<forall>j. j < i \<longrightarrow> torch_col (lz_V st') j = torch_col (lz_V st) j)"
proof (induction bk A n i k st rule: lanczos_loop.induct)
  case (1 bk A n i k st)
  note A = \<open>gshape A = [n, n]\<close> and inv = \<open>lz_inv n m st\<close>
    and tri = \<open>tridiag_upto m i (lz_T st)\<close>
  show ?case
  proof (cases "i < k")
    case False
    with "1.prems" have "i = k" by simp
    with inv tri show ?thesis by (simp add: lanczos_loop.simps [of bk A n k k])
  next
    case True
    with \<open>k \<le> m\<close> have im: "i < m" by simp
    obtain st1 cb ca where s: "lanczos_step bk A n i st = Inr st1" "lz_inv n m st1"
      "split (lz_V st1) = split (lz_V st)"
      "\<forall>a b. a < m \<and> b < m \<longrightarrow>
              entry (lz_T st1) a b = (if a = i \<and> b = i then ca
                              else if (a = i - 1 \<and> b = i) \<or> (a = i \<and> b = i - 1) then cb
                              else entry (lz_T st) a b)"
      "\<forall>j. j < m \<and> j \<noteq> i \<longrightarrow> torch_col (lz_V st1) j = torch_col (lz_V st) j"
      using lanczos_step_ok [OF A \<open>0 < i\<close> im inv, of bk] by blast
    have tri1: "tridiag_upto m (Suc i) (lz_T st1)"
      using tridiag_step [OF tri \<open>0 < i\<close> im s(4)] .
    have le: "Suc i \<le> k" using True by simp
    from "1.IH" [OF True s(1) A _ le \<open>k \<le> m\<close> s(2) tri1]
    obtain st' where ih: "lanczos_loop bk A n (Suc i) k st1 = Inr st'" "lz_inv n m st'"
      "tridiag_upto m k (lz_T st')" "split (lz_V st') = split (lz_V st1)"
      "\<forall>a b. a < Suc i \<and> b < Suc i \<longrightarrow> entry (lz_T st') a b = entry (lz_T st1) a b"
      "\<forall>j. j < Suc i \<longrightarrow> torch_col (lz_V st') j = torch_col (lz_V st1) j"
      by auto
    have loop: "lanczos_loop bk A n i k st = Inr st'"
      using True s(1) ih(1) by (simp add: lanczos_loop.simps [of bk A n i k])
    have ent: "entry (lz_T st') a b = entry (lz_T st) a b" if "a < i" "b < i" for a b
    proof -
      have "entry (lz_T st') a b = entry (lz_T st1) a b" using ih(5) that by simp
      also have "\<dots> = entry (lz_T st) a b" using s(4) that im by auto
      finally show ?thesis .
    qed
    have cols: "torch_col (lz_V st') j = torch_col (lz_V st) j" if "j < i" for j
      using ih(6) s(5) that im by simp
    show ?thesis
      using loop ih(2) ih(3) ih(4) s(3) ent cols by simp
  qed
qed

lemma lanczos_loop_split:
  "i \<le> k \<Longrightarrow> k \<le> m \<Longrightarrow>
   lanczos_loop bk A n i m st = ebind (lanczos_loop bk A n i k st) (lanczos_loop bk A n k m)"
proof (induction bk A n i k st rule: lanczos_loop.induct)
  case (1 bk A n i k st)
  show ?case
  proof (cases "i < k")
    case False
    with "1.prems" have "i = k" by simp
    then show ?thesis by (simp add: lanczos_loop.simps [of bk A n k k])
  next
    case True
    with "1.prems" have im: "i < m" by simp
    show ?thesis
    proof (cases "lanczos_step bk A n i st")
      case (Inl e)
      with True im show ?thesis
        by (simp add: lanczos_loop.simps [of bk A n i k] lanczos_loop.simps [of bk A n i m])
    next
      case (Inr st1)
      from "1.IH" [OF True Inr _ "1.prems"(2)] True
      have "lanczos_loop bk A n (Suc i) m st1 =
            ebind (lanczos_loop bk A n (Suc i) k st1) (lanczos_loop bk A n k m)" by simp
      with True im Inr show ?thesis
        by (simp add: lanczos_loop.simps [of bk A n i k] lanczos_loop.simps [of bk A n i m])
    qed
  qed
qed

lemma lanczos_loop_last:
  "lanczos_loop bk A n k (Suc k) st = lanczos_step bk A n k st"
  by (cases "lanczos_step bk A n k st")
     (simp_all add: lanczos_loop.simps [of bk A n k "Suc k"]
        lanczos_loop.simps [of bk A n "Suc k" "Suc k"])

lemma ht_zeros_ok:
  assumes "0 \<le> k"
  shows "\<exists>T :: 'a::zero DNDarray.
           ht_zeros [IntV k, IntV k] None = Inr T \<and> mat_shaped (nat k) (nat k) T \<and>
           (\<forall>a b. a < nat k \<and> b < nat k \<longrightarrow> entry T a b = 0)"
proof -
  let ?m = "nat k"
  let ?T = "\<lparr>gshape = [?m, ?m], split = None, larray = replicate (?m * ?m) (0::'a)\<rparr>"
  have z: "ht_zeros [IntV k, IntV k] None = Inr ?T"
    using assms by (simp add: ht_zeros_def ht_full_def)
  have e: "entry ?T a b = 0" if "a < ?m" "b < ?m" for a b
    using index_less [OF that] by (simp add: entry_def)
  show ?thesis using z e by (intro exI [of _ ?T]) (simp add: mat_shaped_def)
qed

lemma split_update_same: "split V = s \<Longrightarrow> V\<lparr>split := s\<rparr> = V"
  by (cases V) simp

lemma lanczos_alloc_V_ok:
  assumes "0 \<le> k"
  shows "\<exists>V. lanczos_alloc_V A n (IntV k) = Inr V \<and> mat_shaped n (nat k) V \<and>
           split V = V_split A"
  using assms by (simp add: lanczos_alloc_V_def ht_ones_def ht_full_def mat_shaped_def V_split_def)

lemma lanczos_v0_ok:
  assumes sp: "split V = None \<or> split V = Some 0" and v0: "v0_ok n v0"
  shows "\<exists>v v0' d. lanczos_v0 bk n V v0 = Inr (v, v0', d) \<and> vec_shaped n v \<and>
           v0' = map_option (\<lambda>u. u\<lparr>split := split V\<rparr>) v0"
proof (cases v0)
  case None
  obtain v where "truediv bk (ht_random_rand bk 0 n (split V))
                    (ht_norm bk (ht_random_rand bk 0 n (split V))) = Inr v" "vec_shaped n v"
    using normalise_ok [OF rand_vec] by blast
  with None show ?thesis by (simp add: lanczos_v0_def)
next
  case (Some u)
  with v0 have u: "vec_shaped n u" by (simp add: v0_ok_def)
  then have nd: "ndim u = 1" by (simp add: ndim_def vec_shaped_def)
  show ?thesis
  proof (cases "split u = split V")
    case True
    then have "u\<lparr>split := split V\<rparr> = u" by (rule split_update_same)
    with Some True u show ?thesis by (simp add: lanczos_v0_def)
  next
    case False
    have "resplit_inplace u (split V) = Inr (u\<lparr>split := split V\<rparr>)"
      using sp nd by (auto simp: resplit_inplace_def)
    moreover have "vec_shaped n (u\<lparr>split := split V\<rparr>)"
      using u by (simp add: vec_shaped_def)
    ultimately show ?thesis using Some False by (simp add: lanczos_v0_def)
  qed
qed

lemma tridiag_first:
  assumes z: "\<forall>a b. a < m \<and> b < m \<longrightarrow> entry T a b = 0"
    and e: "\<forall>a b. a < m \<and> b < m \<longrightarrow> entry T' a b = (if a = 0 \<and> b = 0 then c else entry T a b)"
  shows "tridiag_upto m 1 T'"
  unfolding tridiag_upto_def
proof (intro allI impI)
  fix a b assume ab: "a < m \<and> b < m"
  then have ba: "b < m \<and> a < m" by simp
  from e ab z have eab: "entry T' a b = (if a = 0 \<and> b = 0 then c else 0)" by simp
  from e ba z have eba: "entry T' b a = (if b = 0 \<and> a = 0 then c else 0)" by simp
  show "entry T' a b = entry T' b a \<and>
        (a + 1 < b \<or> b + 1 < a \<or> 1 \<le> a \<or> 1 \<le> b \<longrightarrow> entry T' a b = 0)"
    using eab eba by auto
qed

lemma lanczos_init_ok:
  assumes A: "gshape A = [n, n]" and k: "1 \<le> k" and v0: "v0_ok n v0"
  shows "\<exists>st0 alpha0 v0' ca V0 v d.
           lanczos_init bk A (IntV k) v0 = Inr (st0, alpha0, v0') \<and>
           lz_inv n (nat k) st0 \<and> tridiag_upto (nat k) 1 (lz_T st0) \<and>
           item alpha0 = Inr ca \<and> entry (lz_T st0) 0 0 = ca \<and>
           lanczos_alloc_V A n (IntV k) = Inr V0 \<and> split V0 = V_split A \<and>
           split (lz_V st0) = V_split A \<and>
           lanczos_v0 bk n V0 v0 = Inr (v, v0', d) \<and> vec_shaped n v \<and>
           v0' = map_option (\<lambda>u. u\<lparr>split := V_split A\<rparr>) v0 \<and>
           torch_col (lz_V st0) 0 = Inr (larray v) \<and> lz_coef st0 = None"
proof -
  let ?m = "nat k"
  have k0: "0 \<le> k" and m0: "0 < ?m" using k by simp_all
  have n: "gshape A ! 0 = n" using A by simp
  obtain T :: "'a DNDarray" where T: "ht_zeros [IntV k, IntV k] None = Inr T" "mat_shaped ?m ?m T"
    "\<forall>a b. a < ?m \<and> b < ?m \<longrightarrow> entry T a b = 0"
    using ht_zeros_ok [OF k0] by blast
  obtain V0 where V0: "lanczos_alloc_V A n (IntV k) = Inr V0" "mat_shaped n ?m V0"
    "split V0 = V_split A"
    using lanczos_alloc_V_ok [OF k0] by blast
  have sp: "split V0 = None \<or> split V0 = Some 0"
    using V0(3) by (simp add: V_split_def)
  obtain v v0' d where v: "lanczos_v0 bk n V0 v0 = Inr (v, v0', d)" "vec_shaped n v"
    "v0' = map_option (\<lambda>u. u\<lparr>split := split V0\<rparr>) v0"
    using lanczos_v0_ok [OF sp v0] by blast
  obtain w where w: "matmul bk A v = Inr w" "vec_shaped n w"
    using matmul_vec_ok [OF A v(2)] by blast
  obtain alpha where al: "ht_dot w v = Inr alpha" "scalar_shaped alpha"
    using ht_dot_ok [OF w(2) v(2)] by blast
  obtain ca where ca: "item alpha = Inr ca" using scalar_item [OF al(2)] by blast
  obtain av where av: "mul bk alpha v = Inr av" "vec_shaped n av"
    using scalar_vec_binary_op [OF al(2) v(2)] unfolding mul_def by blast
  obtain w1 where w1: "sub bk w av = Inr w1" "vec_shaped n w1"
    using vec_binary_op [OF w(2) av(2)] unfolding sub_def by blast
  obtain T1 where T1: "setitem T 0 0 alpha = Inr T1" "mat_shaped ?m ?m T1"
    "\<forall>a b. a < ?m \<and> b < ?m \<longrightarrow> entry T1 a b = (if a = 0 \<and> b = 0 then ca else entry T a b)"
    using setitem_ok [OF T(2) m0 m0 ca] by blast
  obtain V1 where V1: "setcol V0 0 v = Inr V1" "mat_shaped n ?m V1" "split V1 = split V0"
    "torch_col V1 0 = Inr (larray v)"
    using setcol_ok [OF V0(2) m0 v(2)] by blast
  let ?st0 = "\<lparr>lz_w = w1, lz_T = T1, lz_V = V1, lz_draws = d, lz_coef = None\<rparr>"
  have init: "lanczos_init bk A (IntV k) v0 = Inr (?st0, alpha, v0')"
    by (simp add: lanczos_init_def n T(1) V0(1) v(1) w(1) al(1) av(1) w1(1) T1(1) V1(1))
  have inv: "lz_inv n ?m ?st0"
    by (simp add: lz_inv_def w1(2) T1(2) V1(2))
  have tri: "tridiag_upto ?m 1 T1"
    using tridiag_first [OF T(3) T1(3)] .
  have e00: "entry T1 0 0 = ca" using T1(3) m0 by simp
  show ?thesis
    using init inv tri ca e00 V0(1) V0(3) V1(3) v V1(4)
    by (intro exI [of _ ?st0] exI [of _ alpha] exI [of _ v0'] exI [of _ ca] exI [of _ V0]
        exI [of _ v] exI [of _ d]) simp
qed

lemma lanczos_checks_ok:
  assumes "gshape A = [n, n]"
  shows "lanczos_checks (Arr A) (IntV k) = None"
  using assms by (simp add: lanczos_checks_def ndim_def)

lemma lanczos_return_ok:
  "\<exists>res. lanczos_return V T v0' V_out T_out = Inr res \<and>
     ret_V res = V\<lparr>split := None\<rparr> \<and> ret_T res = T \<and> v0_after res = v0' \<and>
     V_out_after res = V_out \<and> T_out_after res = T_out"
proof -
  have "(if split V \<noteq> None then resplit_inplace V None else Inr V) = Inr (V\<lparr>split := None\<rparr>)"
    by (cases "split V") (simp_all add: resplit_inplace_def split_update_same)
  then show ?thesis by (simp add: lanczos_return_def copy_def)
qed

lemma torch_col_unsplit [simp]: "torch_col (V\<lparr>split := None\<rparr>) j = torch_col V j"
  by (simp add: torch_col_def ndim_def)

lemma entry_unsplit [simp]: "entry (V\<lparr>split := sp\<rparr>) a b = entry V a b"
  by (simp add: entry_def)

lemma lanczos_run:
  assumes A: "gshape A = [n, n]" and k: "1 \<le> k" and v0: "v0_ok n v0"
  shows "\<exists>res st0 alpha0 v0' st ca V0 v d.
     lanczos bk (Arr A) (IntV k) v0 V_out T_out = Inr res \<and>
     lanczos_init bk A (IntV k) v0 = Inr (st0, alpha0, v0') \<and>
     lanczos_loop bk A n 1 (nat k) st0 = Inr st \<and>
     lz_inv n (nat k) st0 \<and> tridiag_upto (nat k) 1 (lz_T st0) \<and>
     lz_inv n (nat k) st \<and> tridiag_upto (nat k) (nat k) (lz_T st) \<and>
     ret_V res = (lz_V st)\<lparr>split := None\<rparr> \<and> ret_T res = lz_T st \<and>
     v0_after res = map_option (\<lambda>u. u\<lparr>split := V_split A\<rparr>) v0 \<and>
     V_out_after res = V_out \<and> T_out_after res = T_out \<and>
     item alpha0 = Inr ca \<and> entry (lz_T st) 0 0 = ca \<and>
     lanczos_alloc_V A n (IntV k) = Inr V0 \<and> split V0 = V_split A \<and>
     split (lz_V st0) = V_split A \<and>
     lanczos_v0 bk n V0 v0 = Inr (v, v0', d) \<and> torch_col (lz_V st) 0 = Inr (larray v)"
proof -
  let ?m = "nat k"
  have m1: "1 \<le> ?m" using k by simp
  obtain st0 alpha0 v0' ca V0 v d where init:
    "lanczos_init bk A (IntV k) v0 = Inr (st0, alpha0, v0')"
    "lz_inv n ?m st0" "tridiag_upto ?m 1 (lz_T st0)"
    "item alpha0 = Inr ca" "entry (lz_T st0) 0 0 = ca"
    "lanczos_alloc_V A n (IntV k) = Inr V0" "split V0 = V_split A"
    "split (lz_V st0) = V_split A"
    "lanczos_v0 bk n V0 v0 = Inr (v, v0', d)"
    "v0' = map_option (\<lambda>u. u\<lparr>split := V_split A\<rparr>) v0"
    "torch_col (lz_V st0) 0 = Inr (larray v)"
    using lanczos_init_ok [OF A k v0, of bk] by blast
  obtain st where loop: "lanczos_loop bk A n 1 ?m st0 = Inr st" "lz_inv n ?m st"
    "tridiag_upto ?m ?m (lz_T st)"
    "\<forall>a b. a < 1 \<and> b < 1 \<longrightarrow> entry (lz_T st) a b = entry (lz_T st0) a b"
    "\<forall>j. j < 1 \<longrightarrow> torch_col (lz_V st) j = torch_col (lz_V st0) j"
    using lanczos_loop_ok [OF A zero_less_one m1 le_refl init(2) init(3), of bk] by blast
  obtain res where res: "lanczos_return (lz_V st) (lz_T st) v0' V_out T_out = Inr res"
    "ret_V res = (lz_V st)\<lparr>split := None\<rparr>" "ret_T res = lz_T st" "v0_after res = v0'"
    "V_out_after res = V_out" "T_out_after res = T_out"
    using lanczos_return_ok by blast
  have n: "gshape A ! 0 = n" using A by simp
  have call: "lanczos bk (Arr A) (IntV k) v0 V_out T_out = Inr res"
    using k by (simp add: lanczos_def lanczos_checks_ok [OF A] init(1) n loop(1) res(1)
        del: One_nat_def)
  have e00: "entry (lz_T st) 0 0 = ca" using loop(4) init(5) by simp
  have c0: "torch_col (lz_V st) 0 = Inr (larray v)" using loop(5) init(11) by simp
  show ?thesis
    using call init(1) loop(1) init(2) init(3) loop(2) loop(3) res(2-6) init(10) init(4) e00
      init(6-9) c0
    by (intro exI [of _ res] exI [of _ st0] exI [of _ alpha0] exI [of _ v0'] exI [of _ st]
        exI [of _ ca] exI [of _ V0] exI [of _ v] exI [of _ d]) simp
qed

lemma lanczos_iteration:
  assumes A: "gshape A = [n, n]" and inv: "lz_inv n m st0"
    and tri: "tridiag_upto m 1 (lz_T st0)" and i1: "1 \<le> i" and im: "i < m"
    and fin: "lanczos_loop bk A n 1 m st0 = Inr st"
  shows "\<exists>sti beta alpha vi cb ca.
     lanczos_loop bk A n 1 (Suc i) st0 = Inr sti \<and>
     lz_coef sti = Some (beta, alpha, vi) \<and>
     item beta = Inr cb \<and> item alpha = Inr ca \<and> vec_shaped n vi \<and>
     entry (lz_T st) (i - 1) i = cb \<and> entry (lz_T st) i (i - 1) = cb \<and>
     entry (lz_T st) i i = ca \<and> torch_col (lz_V st) i = Inr (larray vi)"
proof -
  have i0: "0 < i" using i1 by simp
  have ile: "i \<le> m" using im by simp
  obtain sa where sa: "lanczos_loop bk A n 1 i st0 = Inr sa" "lz_inv n m sa"
    "tridiag_upto m i (lz_T sa)"
    using lanczos_loop_ok [OF A zero_less_one i1 ile inv tri, of bk] by blast
  obtain sb beta alpha vi cb ca where sb: "lanczos_step bk A n i sa = Inr sb" "lz_inv n m sb"
    "lz_coef sb = Some (beta, alpha, vi)" "item beta = Inr cb" "item alpha = Inr ca"
    "vec_shaped n vi"
    "\<forall>a b. a < m \<and> b < m \<longrightarrow>
        entry (lz_T sb) a b = (if a = i \<and> b = i then ca
                        else if (a = i - 1 \<and> b = i) \<or> (a = i \<and> b = i - 1) then cb
                        else entry (lz_T sa) a b)"
    "torch_col (lz_V sb) i = Inr (larray vi)"
    using lanczos_step_ok [OF A i0 im sa(2), of bk] by blast
  have upto: "lanczos_loop bk A n 1 (Suc i) st0 = Inr sb"
    using lanczos_loop_split [of 1 i "Suc i" bk A n st0] i1 sa(1) sb(1)
    by (simp add: lanczos_loop_last)
  have tri': "tridiag_upto m (Suc i) (lz_T sb)"
    using tridiag_step [OF sa(3) i0 im sb(7)] .
  have sle: "Suc i \<le> m" using im by simp
  obtain sc where sc: "lanczos_loop bk A n (Suc i) m sb = Inr sc"
    "\<forall>a b. a < Suc i \<and> b < Suc i \<longrightarrow> entry (lz_T sc) a b = entry (lz_T sb) a b"
    "\<forall>j. j < Suc i \<longrightarrow> torch_col (lz_V sc) j = torch_col (lz_V sb) j"
    using lanczos_loop_ok [OF A zero_less_Suc sle le_refl sb(2) tri', of bk] by blast
  have "lanczos_loop bk A n 1 m st0 = Inr sc"
    using lanczos_loop_split [of 1 "Suc i" m bk A n st0] sle upto sc(1) by simp
  with fin have st: "st = sc" by simp
  have i1m: "i - 1 < m" using im by simp
  have ne: "i - 1 \<noteq> i" using i0 by simp
  have e1: "entry (lz_T sb) (i - 1) i = cb"
    using sb(7) i1m im ne by simp
  have e2: "entry (lz_T sb) i (i - 1) = cb"
    using sb(7) i1m im ne by auto
  have e3: "entry (lz_T sb) i i = ca"
    using sb(7) im by simp
  have f1: "entry (lz_T st) (i - 1) i = cb" using sc(2) e1 st by simp
  have f2: "entry (lz_T st) i (i - 1) = cb" using sc(2) e2 st by simp
  have f3: "entry (lz_T st) i i = ca" using sc(2) e3 st by simp
  have f4: "torch_col (lz_V st) i = Inr (larray vi)" using sc(3) sb(8) st by simp
  show ?thesis
    using upto sb(3-6) f1 f2 f3 f4 by blast
qed

subsection \<open>The claims about lanczos\<close>

text \<open>
  An instance in which the breakdown branch is taken: for the 2 by 2 identity and the
  first unit vector as \<open>v0\<close>, \<open>w\<close> is zero after the 0th iteration, so iteration 1
  finds \<open>beta = 0\<close>, draws a vector (the counter goes from 0 to 1), orthogonalises it
  against the first column and normalises it. \<open>V\<close> and \<open>T\<close> are 2 by 2 all the same.
\<close>

lemma sqrt_quarter: "sqrt (1 / 4) = 1 / 2"
  by (rule real_sqrt_unique) (simp_all add: power2_eq_square)

lemma list_update_numeral: "(x # xs)[numeral k := v] = x # xs[pred_numeral k := v]"
  by (simp add: numeral_eq_Suc)

lemma replicate_numeral: "replicate (numeral k) x = x # replicate (pred_numeral k) x"
  by (simp add: numeral_eq_Suc)

lemma lanczos_breakdown_example:
  "\<exists>st0 alpha0 v0' beta vi st res.
     lanczos_init unsplit_exact eye2 (IntV 2) (Some e1) = Inr (st0, alpha0, v0') \<and>
     lz_draws st0 = 0 \<and>
     lanczos_candidate unsplit_exact 2 1 (lz_w st0) (lz_V st0) 0 = Inr (beta, vi, 1) \<and>
     larray beta = [0] \<and> larray vi = [0, 1] \<and>
     lanczos unsplit_exact (Arr eye2) (IntV 2) (Some e1) None None = Inr res \<and>
     gshape (ret_V res) = [2, 2] \<and> larray (ret_V res) = [1, 0, 0, 1] \<and>
     gshape (ret_T res) = [2, 2] \<and> larray (ret_T res) = [1, 0, 0, 1]"
  by (simp add: lanczos_def lanczos_checks_def lanczos_init_def lanczos_alloc_V_def
      lanczos_v0_def lanczos_candidate_def lanczos_recurrence_def lanczos_store_def
      lanczos_step_def lanczos_return_def lanczos_loop.simps
      ht_zeros_def ht_ones_def ht_full_def ht_norm_def ht_dot_def ht_random_rand_def
      reorth_step_def torch_col_def torch_dot_def getcol_def setitem_def setcol_def col_def
      copy_def resplit_inplace_def
      matmul_def ndim_def eye2_def e1_def exact_def unsplit_exact_def dot_list_def row_def
      upt_conv_Cons sub_def binary_op_def truediv_def item_def mul_def add_def
      sqrt_quarter list_update_numeral replicate_numeral)

lemma ebind_eq_Inr: "ebind m f = Inr y \<Longrightarrow> \<exists>v. m = Inr v \<and> f v = Inr y"
  by (cases m) simp_all

lemma lanczos_candidate_breakdown:
  assumes "lanczos_candidate bk n i w V draws = Inr (beta, vi, d)"
    and "item (ht_norm bk w) = Inr c" and "abs c < tol bk"
  shows "\<exists>vr. reorth_loop V [0..<i] (ht_random_rand bk draws n (split V)) = Inr vr \<and>
              truediv bk vr (ht_norm bk vr) = Inr vi \<and> d = Suc draws \<and> beta = ht_norm bk w"
  using assms by (auto simp: lanczos_candidate_def Let_def dest!: ebind_eq_Inr)

text \<open>
  On one rank: for a square \<open>A\<close> (\<open>n \<times> n\<close>), an integer \<open>m = k \<ge> 1\<close> and a starting
  vector that is absent or has length \<open>n\<close>, and whatever the arithmetic and the random
  draws return (so whichever branch each iteration takes), \<open>lanczos\<close> returns \<open>V\<close> of
  shape \<open>(n, m)\<close> and \<open>T\<close> of shape \<open>(m, m)\<close>. Column 0 of \<open>V\<close> holds the starting
  vector, and column \<open>i\<close>, for \<open>1 \<le> i < m\<close>, holds the vector \<open>vi\<close> that iteration \<open>i\<close>
  computed. In the breakdown branch that vector is the drawn vector, orthogonalised
  against the columns before \<open>i\<close> and normalised (\<open>lanczos_candidate_breakdown\<close>).
\<close>

lemma lanczos_one_rank_fills_m_columns:
  assumes "gshape A = [n, n]" and "1 \<le> k" and "v0_ok n v0"
  shows "\<exists>res st0 alpha0 v0' V0 v d.
     lanczos bk (Arr A) (IntV k) v0 V_out T_out = Inr res \<and>
     mat_shaped n (nat k) (ret_V res) \<and> mat_shaped (nat k) (nat k) (ret_T res) \<and>
     lanczos_init bk A (IntV k) v0 = Inr (st0, alpha0, v0') \<and>
     lanczos_alloc_V A n (IntV k) = Inr V0 \<and>
     lanczos_v0 bk n V0 v0 = Inr (v, v0', d) \<and>
     torch_col (ret_V res) 0 = Inr (larray v) \<and>
     (\<forall>i. 1 \<le> i \<and> i < nat k \<longrightarrow>
        (\<exists>sti beta alpha vi.
           lanczos_loop bk A n 1 (Suc i) st0 = Inr sti \<and>
           lz_coef sti = Some (beta, alpha, vi) \<and>
           torch_col (ret_V res) i = Inr (larray vi)))"
proof -
  obtain res st0 alpha0 v0' st V0 v d where run:
    "lanczos bk (Arr A) (IntV k) v0 V_out T_out = Inr res"
    "lanczos_init bk A (IntV k) v0 = Inr (st0, alpha0, v0')"
    "lanczos_loop bk A n 1 (nat k) st0 = Inr st"
    "lz_inv n (nat k) st0" "tridiag_upto (nat k) 1 (lz_T st0)" "lz_inv n (nat k) st"
    "ret_V res = (lz_V st)\<lparr>split := None\<rparr>" "ret_T res = lz_T st"
    "lanczos_alloc_V A n (IntV k) = Inr V0"
    "lanczos_v0 bk n V0 v0 = Inr (v, v0', d)" "torch_col (lz_V st) 0 = Inr (larray v)"
    using lanczos_run [OF assms, of bk V_out T_out] by blast
  have shV: "mat_shaped n (nat k) (ret_V res)" and shT: "mat_shaped (nat k) (nat k) (ret_T res)"
    using run(6) run(7) run(8) by (simp_all add: lz_inv_def mat_shaped_def)
  have c0: "torch_col (ret_V res) 0 = Inr (larray v)"
    using run(7) run(11) by simp
  have ci: "\<exists>sti beta alpha vi.
           lanczos_loop bk A n 1 (Suc i) st0 = Inr sti \<and>
           lz_coef sti = Some (beta, alpha, vi) \<and>
           torch_col (ret_V res) i = Inr (larray vi)" if "1 \<le> i \<and> i < nat k" for i
  proof -
    from that have i: "1 \<le> i" "i < nat k" by simp_all
    obtain sti beta alpha vi where
      "lanczos_loop bk A n 1 (Suc i) st0 = Inr sti" "lz_coef sti = Some (beta, alpha, vi)"
      "torch_col (lz_V st) i = Inr (larray vi)"
      using lanczos_iteration [OF assms(1) run(4) run(5) i run(3)] by blast
    then show ?thesis using run(7) by auto
  qed
  show ?thesis
    using run(1) shV shT run(2) run(9) run(10) c0 ci by blast
qed







subsection \<open>Several ranks\<close>

declare lanczos_loop_on.simps [simp del]

text \<open>
  On one rank, with \<^verbatim>\<open>resplit_\<close> changing its receiver, the iteration on several ranks
  is the \<open>lanczos\<close> defined first.
\<close>

lemma chunk_one [simp]: "chunk (Suc 0) 0 n = (0, n)"
  by (simp add: chunk_def)

lemma tile_one [simp]: "tile (Suc 0) 0 sp xs = xs"
  by (simp add: tile_def split: option.splits)

lemma reorth_step_on_one [simp]: "reorth_step_on (Suc 0) V vr j = reorth_step V vr j"
  by (cases "torch_col V j")
     (simp_all add: reorth_step_on_def reorth_step_def torch_dot_def allreduce_sum_def untile_def
        Let_def split: option.splits)

lemma reorth_loop_on_one [simp]: "reorth_loop_on (Suc 0) V js vr = reorth_loop V js vr"
  by (induction js arbitrary: vr) (simp_all split: sum.splits)

lemma lanczos_step_on_one [simp]:
  "lanczos_step_on (Suc 0) bk A n i st = lanczos_step bk A n i st"
  by (simp add: lanczos_step_on_def lanczos_step_def lanczos_candidate_on_def
      lanczos_candidate_def Let_def cong: if_cong)

lemma lanczos_loop_on_one [simp]:
  "lanczos_loop_on (Suc 0) bk A n i m st = lanczos_loop bk A n i m st"
proof (induction bk A n i m st rule: lanczos_loop.induct)
  case (1 bk A n i m st)
  show ?case
  proof (cases "i < m")
    case False
    then show ?thesis
      by (simp add: lanczos_loop.simps [of bk A n i m]
          lanczos_loop_on.simps [of "Suc 0" bk A n i m])
  next
    case True
    show ?thesis
    proof (cases "lanczos_step bk A n i st")
      case (Inl e)
      with True show ?thesis
        by (simp add: lanczos_loop.simps [of bk A n i m]
            lanczos_loop_on.simps [of "Suc 0" bk A n i m])
    next
      case (Inr st')
      with True "1.IH" [OF True Inr] show ?thesis
        by (simp add: lanczos_loop.simps [of bk A n i m]
            lanczos_loop_on.simps [of "Suc 0" bk A n i m])
    qed
  qed
qed

lemma lanczos_on_one_rank:
  "lanczos_on one_rank bk A m v0 V_out T_out = lanczos bk A m v0 V_out T_out"
  by (simp add: lanczos_on_def lanczos_def lanczos_init_on_def lanczos_init_def
      lanczos_v0_on_def lanczos_v0_def lanczos_return_on_def lanczos_return_def
      one_rank_def Let_def cong: if_cong option.case_cong)

lemma sqrt_144_625: "sqrt (144 / 625) = 12 / 25"
  by (rule real_sqrt_unique) (simp_all add: power2_eq_square)

text \<open>
  The run behind C3 on two ranks. \<open>A\<close> is split along axis 1, so \<open>V\<close> is unsplit;
  \<open>w\<close> after the 0th iteration has split 0, its tiles have one element each, and
  column 0 of \<open>V\<close> has two: the first step of the Gram-Schmidt loop raises. On one rank
  the same call returns.
\<close>

lemma lanczos_split1_trace:
  "\<exists>st0 alpha0 v0'.
     lanczos_init_on two_ranks (exact draw35 vector_split_rule) diag21_split1 (IntV 2) None =
       Inr (st0, alpha0, v0') \<and>
     split (lz_V st0) = None \<and> split (lz_w st0) = Some 0 \<and>
     map (\<lambda>r. length (tile 2 r (split (lz_w st0)) (larray (lz_w st0)))) [0, 1] = [1, 1] \<and>
     torch_col (lz_V st0) 0 = Inr [3 / 5, 4 / 5] \<and>
     reorth_step_on 2 (lz_V st0) (lz_w st0) 0 = Inl (RuntimeError ''inconsistent tensor size'')"
  by (simp add: lanczos_init_on_def lanczos_alloc_V_def
      lanczos_v0_on_def two_ranks_def vector_split_rule_def draw35_def diag21_split1_def
      reorth_step_on_def tile_def chunk_def
      ht_zeros_def ht_ones_def ht_full_def ht_norm_def ht_dot_def ht_random_rand_def
      torch_col_def setitem_def setcol_def col_def
      matmul_def ndim_def exact_def dot_list_def row_def
      upt_conv_Cons sub_def binary_op_def truediv_def item_def mul_def add_def
      list_update_numeral replicate_numeral Let_def)

lemma lanczos_split1_one_rank_returns:
  "\<exists>res. lanczos_on one_rank (exact draw35 vector_split_rule) (Arr diag21_split1) (IntV 2)
            None None None = Inr res \<and>
         mat_shaped 2 2 (ret_V res) \<and> mat_shaped 2 2 (ret_T res)"
proof -
  have h: "gshape diag21_split1 = [2, 2]" "(1::int) \<le> 2" "v0_ok 2 (None :: real DNDarray option)"
    by (simp_all add: diag21_split1_def v0_ok_def)
  obtain res and st :: "real lanczos_state" where r:
    "lanczos (exact draw35 vector_split_rule) (Arr diag21_split1) (IntV 2) None None None = Inr res"
    "lz_inv 2 (nat 2) st" "ret_V res = (lz_V st)\<lparr>split := None\<rparr>" "ret_T res = lz_T st"
    using lanczos_run [OF h, of "exact draw35 vector_split_rule" None None] by blast
  have "mat_shaped 2 2 (ret_V res)" "mat_shaped 2 2 (ret_T res)"
    using r(2-4) by (simp_all add: lz_inv_def mat_shaped_def)
  with r(1) show ?thesis by (simp add: lanczos_on_one_rank)
qed

text \<open>
  C3. The claim fails on the code: for the symmetric positive definite
  \<open>A = [[2, 0], [0, 1]]\<close> split along axis 1 on two ranks, \<open>m = 2\<close> and no \<open>v0\<close> (the
  draw is \<open>[3/5, 4/5]\<close>), iteration 1 takes the normal branch (\<open>beta = 12/25\<close>) and
  \<^verbatim>\<open>torch.dot\<close> of line 153 gets a tile of \<open>w\<close> with one element and a column of \<open>V\<close> with
  two: \<open>lanczos\<close> raises \<^verbatim>\<open>RuntimeError\<close> and returns no \<open>V\<close> and no \<open>T\<close>.
\<close>

theorem lanczos_split1_two_ranks_raises:
  "lanczos_on two_ranks (exact draw35 vector_split_rule) (Arr diag21_split1) (IntV 2)
     None None None = Inl (RuntimeError ''inconsistent tensor size'')"
  by (simp add: lanczos_on_def lanczos_checks_def lanczos_init_on_def lanczos_alloc_V_def
      lanczos_v0_on_def lanczos_candidate_on_def lanczos_step_on_def
      lanczos_loop_on.simps two_ranks_def vector_split_rule_def draw35_def diag21_split1_def
      reorth_step_on_def tile_def chunk_def
      ht_zeros_def ht_ones_def ht_full_def ht_norm_def ht_dot_def ht_random_rand_def
      torch_col_def setitem_def setcol_def col_def
      matmul_def ndim_def exact_def dot_list_def row_def
      upt_conv_Cons sub_def binary_op_def truediv_def item_def mul_def add_def
      sqrt_144_625 list_update_numeral replicate_numeral Let_def)


lemma lanczos_alloc_V_split:
  "lanczos_alloc_V A n m = Inr V \<Longrightarrow> split V = V_split A"
  by (auto simp: lanczos_alloc_V_def ht_ones_def ht_full_def V_split_def
      dest!: ebind_eq_Inr split: if_splits)

lemma lanczos_return_on_v0:
  "lanczos_return_on rt V T v0' V_out T_out = Inr res \<Longrightarrow> v0_after res = v0'"
  by (auto simp: lanczos_return_on_def dest!: ebind_eq_Inr split: if_splits)

text \<open>
  C9. Whatever \<^verbatim>\<open>resplit_\<close> does to its receiver and on any number of ranks: when a
  call with a starting vector \<open>u\<close> returns and the split axis of \<open>u\<close> differs from the
  one chosen for \<open>V\<close>, the object the caller passed is the receiver of
  \<^verbatim>\<open>resplit_(axis=V.split)\<close>, and after the call it is what that method left of it. With
  a \<^verbatim>\<open>resplit_\<close> that gives its receiver the requested split, the caller's object
  has the split axis of \<open>V\<close> after the call, which is not the one it had.
\<close>

theorem lanczos_resplits_caller_v0:
  assumes ret: "lanczos_on rt bk (Arr A) m (Some u) V_out T_out = Inr res"
    and diff: "split u \<noteq> V_split A"
    and contract: "\<forall>a ax a'. resplit_effect rt a ax = Inr a' \<longrightarrow> split a' = ax"
  shows "\<exists>u'. resplit_effect rt u (V_split A) = Inr u' \<and> v0_after res = Some u' \<and>
              split u' = V_split A \<and> split u' \<noteq> split u"
proof -
  from ret have chk: "lanczos_checks (Arr A) m = None"
    by (cases "lanczos_checks (Arr A) m") (simp_all add: lanczos_on_def)
  from ret chk obtain st0 alpha0 v0' where
    init: "lanczos_init_on rt bk A m (Some u) = Inr (st0, alpha0, v0')"
    and rest: "ebind (lanczos_loop_on (ranks rt) bk A (gshape A ! 0) 1 (int_of m) st0)
                 (\<lambda>st. lanczos_return_on rt (lz_V st) (lz_T st) v0' V_out T_out) = Inr res"
    by (auto simp: lanczos_on_def dest!: ebind_eq_Inr simp del: One_nat_def)
  from rest obtain st :: "'a lanczos_state" where "lanczos_return_on rt (lz_V st) (lz_T st) v0' V_out T_out = Inr res"
    by (auto dest!: ebind_eq_Inr)
  then have after: "v0_after res = v0'" by (rule lanczos_return_on_v0)
  from init obtain V v d where
    alloc: "lanczos_alloc_V A (gshape A ! 0) m = Inr V"
    and v0: "lanczos_v0_on rt bk (gshape A ! 0) V (Some u) = Inr (v, v0', d)"
    by (auto simp: lanczos_init_on_def Let_def dest!: ebind_eq_Inr)
  have sV: "split V = V_split A" using alloc by (rule lanczos_alloc_V_split)
  from v0 diff sV obtain u' where u': "resplit_effect rt u (V_split A) = Inr u'" "v0' = Some u'"
    by (auto simp: lanczos_v0_on_def dest!: ebind_eq_Inr)
  from contract u'(1) have s: "split u' = V_split A" by blast
  with diff have "split u' \<noteq> split u" by simp
  with u' after s show ?thesis by simp
qed

theorem lanczos_resplits_caller_v0_witness:
  "\<exists>res. lanczos_on one_rank unsplit_exact (Arr nonsym2) (IntV 2) (Some e1) None None = Inr res \<and>
     split e1 \<noteq> V_split nonsym2 \<and>
     (\<forall>a ax a'. resplit_effect (one_rank :: real runtime) a ax = Inr a' \<longrightarrow> split a' = ax) \<and>
     (\<exists>u'. resplit_effect one_rank e1 (V_split nonsym2) = Inr u' \<and> v0_after res = Some u' \<and>
           split u' = V_split nonsym2 \<and> split u' \<noteq> split e1)"
proof -
  have h: "gshape nonsym2 = [2, 2]" "(1::int) \<le> 2" "v0_ok 2 (Some e1)"
    by (simp_all add: nonsym2_def v0_ok_def vec_shaped_def e1_def)
  obtain res where r:
    "lanczos unsplit_exact (Arr nonsym2) (IntV 2) (Some e1) None None = Inr res"
    using lanczos_run [OF h, of unsplit_exact None None] by blast
  then have ret: "lanczos_on one_rank unsplit_exact (Arr nonsym2) (IntV 2) (Some e1) None None = Inr res"
    by (simp add: lanczos_on_one_rank)
  have diff: "split e1 \<noteq> V_split nonsym2"
    by (simp add: e1_def nonsym2_def V_split_def)
  have contract: "\<forall>a ax a'. resplit_effect (one_rank :: real runtime) a ax = Inr a' \<longrightarrow> split a' = ax"
    by (auto simp: one_rank_def resplit_inplace_def split: option.splits if_splits)
  show ?thesis
    using ret diff contract lanczos_resplits_caller_v0 [OF ret diff contract] by blast
qed

section \<open>The output buffers of cg and lanczos\<close>

lemma cg_identity_run:
  "cg unsplit_exact (Arr eye5) (Arr b5) (Arr z5) out =
     Inr \<lparr>returned = b5, printed = Some 0, passes = 1, out_after = out\<rparr>"
  by (simp add: cg_def cg_checks_def cg_start_def matmul_def ndim_def eye5_def z5_def b5_def
      exact_def unsplit_exact_def dot_list_def row_def upt_conv_Cons sub_def binary_op_def
      len_def cg_update_def truediv_def item_def mul_def add_def cg_converged_def ht_sqrt_def
      cg_loop.simps)

text \<open>
  C4. The claim fails on the code: neither solver checks a buffer or writes into
  it. With a buffer of shape \<open>(3)\<close> and split 0, \<open>cg\<close> on the identity scenario (result
  of shape \<open>(5)\<close>, unsplit) and \<open>lanczos\<close> on the 2 by 2 identity (results of shape
  \<open>(2, 2)\<close>) return their results and raise no \<^verbatim>\<open>ValueError\<close>. The assignments
  \<^verbatim>\<open>out = x\<close>, \<^verbatim>\<open>V_out = V.copy()\<close> and \<^verbatim>\<open>T_out = T.copy()\<close> bind the local name only, so a
  buffer of the right shape is not written either (\<open>cg_valid_buffer_not_written\<close>).
\<close>

theorem out_buffer_not_checked:
  "cg unsplit_exact (Arr eye5) (Arr b5) (Arr z5) (Some bad_out) =
     Inr \<lparr>returned = b5, printed = Some 0, passes = 1, out_after = Some bad_out\<rparr> \<and>
   gshape bad_out \<noteq> gshape b5 \<and> split bad_out \<noteq> split b5 \<and>
   lanczos unsplit_exact (Arr eye2) (IntV 2) (Some e1) (Some bad_out) (Some bad_out) =
     Inr \<lparr>ret_V = eye2, ret_T = eye2, v0_after = Some e1,
          V_out_after = Some bad_out, T_out_after = Some bad_out\<rparr> \<and>
   gshape bad_out \<noteq> gshape eye2 \<and> split bad_out \<noteq> split eye2"
proof (intro conjI cg_identity_run)
  show "lanczos unsplit_exact (Arr eye2) (IntV 2) (Some e1) (Some bad_out) (Some bad_out) =
     Inr \<lparr>ret_V = eye2, ret_T = eye2, v0_after = Some e1,
          V_out_after = Some bad_out, T_out_after = Some bad_out\<rparr>"
    by (simp add: lanczos_def lanczos_checks_def lanczos_init_def lanczos_alloc_V_def
      lanczos_v0_def lanczos_candidate_def lanczos_recurrence_def lanczos_store_def
      lanczos_step_def lanczos_return_def lanczos_loop.simps
      ht_zeros_def ht_ones_def ht_full_def ht_norm_def ht_dot_def ht_random_rand_def
      reorth_step_def torch_col_def torch_dot_def getcol_def setitem_def setcol_def col_def
      copy_def resplit_inplace_def bad_out_def
      matmul_def ndim_def eye2_def e1_def exact_def unsplit_exact_def dot_list_def row_def
      upt_conv_Cons sub_def binary_op_def truediv_def item_def mul_def add_def
      sqrt_quarter list_update_numeral replicate_numeral)
qed (simp_all add: bad_out_def b5_def eye2_def)

lemma cg_valid_buffer_not_written:
  "cg unsplit_exact (Arr eye5) (Arr b5) (Arr z5) (Some z5) =
     Inr \<lparr>returned = b5, printed = Some 0, passes = 1, out_after = Some z5\<rparr> \<and>
   gshape z5 = gshape b5 \<and> split z5 = split b5 \<and> larray z5 \<noteq> larray b5"
  by (intro conjI cg_identity_run) (simp_all add: z5_def b5_def)

section \<open>Properties of PartialH5Dataset\<close>

lemma h5_len_member:
  assumes "distinct (map fst f)" "(k, l) \<in> set f"
  shows "h5_len f k = Inr l"
  using assms by (simp add: h5_len_def)

lemma same_length_check_differs:
  assumes d: "distinct (map fst f)"
  shows "set kls \<subseteq> set f \<Longrightarrow> \<exists>(k, l) \<in> set kls. l \<noteq> sz \<Longrightarrow>
         same_length_check f sz (map fst kls) =
           Some (ValueError ''all datasets in {file} must be the same length'')"
proof (induction kls)
  case Nil
  then show ?case by simp
next
  case (Cons kl kls)
  obtain k l where kl: "kl = (k, l)" by (cases kl)
  with Cons.prems(1) have "(k, l) \<in> set f" by simp
  then have len: "h5_len f k = Inr l" using h5_len_member [OF d] by simp
  show ?case
  proof (cases "l = sz")
    case False
    with len kl show ?thesis by simp
  next
    case True
    with Cons.prems(2) kl have "\<exists>(k, l) \<in> set kls. l \<noteq> sz" by auto
    moreover from Cons.prems(1) have "set kls \<subseteq> set f" by simp
    ultimately have "same_length_check f sz (map fst kls) =
           Some (ValueError ''all datasets in {file} must be the same length'')"
      using Cons.IH by simp
    with len kl True show ?thesis by simp
  qed
qed

text \<open>
  C10. When two datasets of the file have different lengths, the constructor raises
  \<^verbatim>\<open>ValueError\<close>: the length of the first dataset is the reference, the loop over the
  other keys finds a dataset that differs from it, and the error is the outcome of the
  call, so none of the loader sizes is computed.
\<close>

theorem PartialH5Dataset_init_unequal_lengths:
  assumes "distinct (map fst f)" and "(k1, l1) \<in> set f" and "(k2, l2) \<in> set f" and "l1 \<noteq> l2"
  shows "\<exists>k0 ks sz. map fst f = k0 # ks \<and> h5_len f k0 = Inr sz \<and>
           same_length_check f sz ks =
             Some (ValueError ''all datasets in {file} must be the same length'') \<and>
           PartialH5Dataset_init f comm names validate_set initial_load load_length =
             Inl (ValueError ''all datasets in {file} must be the same length'')"
proof -
  from assms(2) obtain k0 sz rest where f: "f = (k0, sz) # rest"
    by (cases f) auto
  have len0: "h5_len f k0 = Inr sz"
    using h5_len_member [OF assms(1), of k0 sz] f by simp
  have "\<exists>(k, l) \<in> set rest. l \<noteq> sz"
  proof (cases "l1 = sz")
    case True
    with assms(4) have "l2 \<noteq> sz" by simp
    with assms(3) f have "(k2, l2) \<in> set rest" by auto
    with \<open>l2 \<noteq> sz\<close> show ?thesis by auto
  next
    case False
    with assms(2) f have "(k1, l1) \<in> set rest" by auto
    with False show ?thesis by auto
  qed
  moreover have "set rest \<subseteq> set f" using f by auto
  ultimately have chk: "same_length_check f sz (map fst rest) =
      Some (ValueError ''all datasets in {file} must be the same length'')"
    using same_length_check_differs [OF assms(1)] by blast
  have keys: "map fst f = k0 # map fst rest" using f by simp
  have "PartialH5Dataset_init f comm names validate_set initial_load load_length =
          Inl (ValueError ''all datasets in {file} must be the same length'')"
    by (simp add: PartialH5Dataset_init_def keys len0 chk)
  with keys len0 chk show ?thesis
    by (intro exI [of _ k0] exI [of _ "map fst rest"] exI [of _ sz]) simp
qed

theorem PartialH5Dataset_init_unequal_lengths_witness:
  "distinct (map fst two_datasets) \<and> (''data'', 10) \<in> set two_datasets \<and>
   (''labels'', 9) \<in> set two_datasets \<and> (10::nat) \<noteq> 9 \<and>
   (\<exists>k0 ks sz. map fst two_datasets = k0 # ks \<and> h5_len two_datasets k0 = Inr sz \<and>
      same_length_check two_datasets sz ks =
        Some (ValueError ''all datasets in {file} must be the same length'') \<and>
      PartialH5Dataset_init two_datasets world [''data''] False 7000 1000 =
        Inl (ValueError ''all datasets in {file} must be the same length''))"
proof -
  have h: "distinct (map fst two_datasets)" "(''data'', 10) \<in> set two_datasets"
    "(''labels'', 9) \<in> set two_datasets" "(10::nat) \<noteq> 9"
    by (simp_all add: two_datasets_def)
  show ?thesis
    using h PartialH5Dataset_init_unequal_lengths [OF h, of world "[''data'']" False 7000 1000]
    by blast
qed

end
